theory Spec2Isabelle
  imports Complex_Main "HOL-Library.Sublist"
begin

section \<open>Python values, exceptions and string formatting\<close>

text \<open>
  A Python \<open>str\<close> is modelled as a \<open>string\<close> with one list element per code point, so
  that \<open>length\<close> is Python's \<open>len\<close> and \<open>take n\<close> is the slice \<open>[:n]\<close>. The values
  that a JSON body can put into the loosely typed \<open>chat_history\<close> dictionaries are
  \<open>pyval\<close> (numbers are represented by their integer case; only the distinction
  between the string \<open>"user"\<close> and everything else is ever inspected).
\<close>

datatype pyval =
    PNone
  | PBool bool
  | PInt int
  | PStr string
  | PList "pyval list"
  | PDict "(string \<times> pyval) list"

text \<open>
  Exceptions. \<open>PyError m\<close> is any exception other than an \<open>HTTPException\<close> whose
  \<open>str()\<close> is \<open>m\<close>; \<open>HTTPException status detail\<close> is FastAPI's. Both are instances of
  \<open>Exception\<close>, so every \<open>except Exception\<close> clause of the source catches both.
\<close>

datatype exn = PyError string | HTTPException nat string

definition digit_char :: "nat \<Rightarrow> char" where
  "digit_char d = char_of (48 + d)"

fun str_nat :: "nat \<Rightarrow> string" where
  "str_nat n = (if n < 10 then [digit_char n] else str_nat (n div 10) @ [digit_char (n mod 10)])"

declare str_nat.simps [simp del]

definition str_int :: "int \<Rightarrow> string" where
  "str_int i = (if i < 0 then CHR ''-'' # str_nat (nat (- i)) else str_nat (nat i))"

text \<open>
  \<open>str(e)\<close>, as used in the f-strings of the \<open>except\<close> clauses. FastAPI's
  \<open>HTTPException\<close> is Starlette's, whose \<open>__str__\<close> returns
  \<open>f"{self.status_code}: {self.detail}"\<close>; any other exception renders as its message.
\<close>

fun str_exn :: "exn \<Rightarrow> string" where
  "str_exn (PyError m) = m"
| "str_exn (HTTPException status detail) = str_nat status @ '': '' @ detail"

definition quoted :: "string \<Rightarrow> string" where
  "quoted s = [CHR 0x27] @ s @ [CHR 0x27]"

text \<open>The message of the \<open>AttributeError\<close> raised by \<open>None.<attr>\<close>.\<close>

definition none_has_no_attribute :: "string \<Rightarrow> string" where
  "none_has_no_attribute attr =
     quoted ''NoneType'' @ '' object has no attribute '' @ quoted attr"

text \<open>The message of the \<open>TypeError\<close> raised by \<open>for msg in None\<close>.\<close>

definition none_not_iterable :: string where
  "none_not_iterable = quoted ''NoneType'' @ '' object is not iterable''"

text \<open>\<open>int(x)\<close> on a float truncates towards zero.\<close>

definition py_int :: "real \<Rightarrow> int" where
  "py_int x = (if 0 \<le> x then \<lfloor>x\<rfloor> else \<lceil>x\<rceil>)"

text \<open>\<open>s.split(sep)\<close> for a one-character separator: never empty.\<close>

fun str_split :: "char \<Rightarrow> string \<Rightarrow> string list" where
  "str_split sep [] = [[]]"
| "str_split sep (c # cs) =
     (if c = sep then [] # str_split sep cs
      else (case str_split sep cs of
              w # ws \<Rightarrow> (c # w) # ws
            | [] \<Rightarrow> [[c]]))"

text \<open>\<open>xs[1]\<close>: \<open>IndexError\<close> when the list has fewer than two elements.\<close>

definition index1 :: "'a list \<Rightarrow> string + 'a" where
  "index1 xs = (case xs of a # b # rest \<Rightarrow> Inr b | _ \<Rightarrow> Inl ''list index out of range'')"

section \<open>Data model\<close>

text \<open>
  \<open>firestore.SERVER_TIMESTAMP\<close> is an instance of the store library's \<open>Sentinel\<close> class
  (an object carrying a description), not a class. \<open>pyobj\<close> distinguishes the two kinds
  of object that appear as the second argument of \<open>isinstance\<close>.
\<close>

datatype pyobj = ClassObj string | SentinelObj string

definition SERVER_TIMESTAMP :: pyobj where
  "SERVER_TIMESTAMP = SentinelObj ''Value used to set a document field to the server timestamp.''"

record ChatRequest =
  prompt :: string
  user_id :: string
  chat_id :: "string option"
  screenshot :: "string option"
  chat_history :: "(string \<rightharpoonup> pyval) list option"

datatype ChatResponse = ChatResponse (response: string) (response_chat_id: string)

text \<open>One turn as handed to the text provider: \<open>{"role": role, "parts": [content]}\<close>.\<close>

record history_entry =
  h_role :: string
  h_parts :: "pyval list"

text \<open>The document written for one message and the merged chat metadata.\<close>

record message =
  content :: string
  role :: string
  timestamp :: pyobj
  has_image :: bool

record chat_fields =
  updated_at :: pyobj
  title :: string
  last_message :: string

text \<open>Field values of a document read back from the store.\<close>

datatype fsval =
    FNull
  | FBool bool
  | FInt int
  | FStr string
  | FTimestamp nat

record document =
  doc_id :: string
  doc_data :: "string \<rightharpoonup> fsval"

section \<open>External collaborators\<close>

text \<open>
  The provider and store SDKs are outside the repository. Each call is a parameter: its
  outcome is either the \<open>str()\<close> of the exception it raises or its result.
\<close>

datatype gen_response = GenResponse (text_of: "string + string")
  \<comment> \<open>\<open>response.text\<close>: \<open>Inl m\<close> when reading the property raises\<close>

record text_model =
  start_chat :: "history_entry list \<Rightarrow> string option"
  send_message :: "history_entry list \<Rightarrow> string \<Rightarrow> string + gen_response"

record vision_client =
  generate_content :: "string \<Rightarrow> string \<Rightarrow> string \<Rightarrow> string + gen_response"

record db_client =
  chat_document :: "string \<Rightarrow> string \<Rightarrow> string option"
  messages_add :: "string \<Rightarrow> string \<Rightarrow> message \<Rightarrow> string option"
  chat_set :: "string \<Rightarrow> string \<Rightarrow> chat_fields \<Rightarrow> string option"
  messages_stream :: "string \<Rightarrow> string \<Rightarrow> string + document list"

text \<open>
  The module-level globals after initialisation (\<open>None\<close> when it failed) and the
  process environment a request reads: the clock, \<open>base64.b64decode\<close> (\<open>Inl m\<close> when
  it raises), \<open>datetime.now().isoformat()\<close> and \<open>isoformat\<close> of a stored time.
\<close>

record env =
  model :: "text_model option"
  vision_model :: "vision_client option"
  db :: "db_client option"
  time_time :: real
  b64decode :: "string \<Rightarrow> string + string"
  datetime_now_isoformat :: string
  isoformat :: "nat \<Rightarrow> string"

text \<open>What a run of a handler does to the outside, in order.\<close>

datatype event =
    Print string
  | StartChat "history_entry list"
  | SendMessage string
  | GenerateContent string string string
  | MessagesAdd string string message
  | ChatSet string string chat_fields

text \<open>What FastAPI sends back: the 200 body, or the status and detail of the
  \<open>HTTPException\<close> that left the handler.\<close>

datatype 'a http = Returned 'a | Raised nat string

section \<open>POST /chat\<close>

text \<open>Truthiness of an \<open>Optional[str]\<close>: \<open>None\<close> and \<open>""\<close> are false.\<close>

fun truthy :: "string option \<Rightarrow> bool" where
  "truthy None = False"
| "truthy (Some s) = (s \<noteq> [])"

text \<open>Line 97: \<open>request.chat_id if request.chat_id else f"chat_{int(time.time())}"\<close>.\<close>

definition new_chat_id :: "real \<Rightarrow> string" where
  "new_chat_id t = ''chat_'' @ str_int (py_int t)"

definition choose_chat_id :: "env \<Rightarrow> ChatRequest \<Rightarrow> string" where
  "choose_chat_id e req =
     (case chat_id req of
        None \<Rightarrow> new_chat_id (time_time e)
      | Some c \<Rightarrow> if c \<noteq> [] then c else new_chat_id (time_time e))"

text \<open>Lines 100-103: the loop body and the loop.\<close>

definition dict_get :: "(string \<rightharpoonup> 'v) \<Rightarrow> string \<Rightarrow> 'v \<Rightarrow> 'v" where
  "dict_get d k dflt = (case d k of None \<Rightarrow> dflt | Some v \<Rightarrow> v)"

definition history_item :: "(string \<rightharpoonup> pyval) \<Rightarrow> history_entry" where
  "history_item msg =
     \<lparr>h_role = (if dict_get msg ''role'' PNone = PStr ''user'' then ''user'' else ''model''),
      h_parts = [dict_get msg ''content'' (PStr [])]\<rparr>"

definition build_history :: "(string \<rightharpoonup> pyval) list \<Rightarrow> history_entry list" where
  "build_history msgs = map history_item msgs"

text \<open>Line 111: the text handed to \<open>b64decode\<close>.\<close>

definition screenshot_payload :: "string \<Rightarrow> string + string" where
  "screenshot_payload s =
     (if CHR '','' \<in> set s then index1 (str_split (CHR '','') s) else Inr s)"

text \<open>Lines 109-119: the vision branch with its own \<open>try\<close>/\<open>except\<close>.\<close>

definition vision_try :: "env \<Rightarrow> ChatRequest \<Rightarrow> string \<Rightarrow> event list \<times> (exn + string)" where
  "vision_try e req s =
     (case screenshot_payload s of
        Inl m \<Rightarrow> ([], Inl (PyError m))
      | Inr payload \<Rightarrow>
          (case b64decode e payload of
             Inl m \<Rightarrow> ([], Inl (PyError m))
           | Inr image_data \<Rightarrow>
               (case vision_model e of
                  None \<Rightarrow> ([], Inl (PyError (none_has_no_attribute ''generate_content'')))
                | Some vm \<Rightarrow>
                    ([GenerateContent (prompt req) ''image/jpeg'' image_data],
                     case generate_content vm (prompt req) ''image/jpeg'' image_data of
                       Inl m \<Rightarrow> Inl (PyError m)
                     | Inr r \<Rightarrow>
                         (case text_of r of Inl m \<Rightarrow> Inl (PyError m) | Inr t \<Rightarrow> Inr t)))))"

definition vision_branch :: "env \<Rightarrow> ChatRequest \<Rightarrow> string \<Rightarrow> event list \<times> (exn + string)" where
  "vision_branch e req s =
     (case vision_try e req s of
        (tr, Inl ex) \<Rightarrow>
          (tr @ [Print (''Vision model error: '' @ str_exn ex)],
           Inl (HTTPException 500 (''Vision model error: '' @ str_exn ex)))
      | (tr, Inr t) \<Rightarrow> (tr, Inr t))"

text \<open>Lines 121-124: the text branch.\<close>

definition text_branch ::
  "env \<Rightarrow> ChatRequest \<Rightarrow> history_entry list \<Rightarrow> event list \<times> (exn + string)" where
  "text_branch e req history =
     (case model e of
        None \<Rightarrow> ([], Inl (PyError (none_has_no_attribute ''start_chat'')))
      | Some m \<Rightarrow>
          (case start_chat m history of
             Some err \<Rightarrow> ([StartChat history], Inl (PyError err))
           | None \<Rightarrow>
               ([StartChat history, SendMessage (prompt req)],
                case send_message m history (prompt req) of
                  Inl err \<Rightarrow> Inl (PyError err)
                | Inr r \<Rightarrow> (case text_of r of Inl err \<Rightarrow> Inl (PyError err) | Inr t \<Rightarrow> Inr t))))"

definition ai_step ::
  "env \<Rightarrow> ChatRequest \<Rightarrow> history_entry list \<Rightarrow> event list \<times> (exn + string)" where
  "ai_step e req history =
     (case screenshot req of
        None \<Rightarrow> text_branch e req history
      | Some s \<Rightarrow> if s \<noteq> [] then vision_branch e req s else text_branch e req history)"

text \<open>Lines 154-155: the two derived display fields.\<close>

definition truncate_to :: "nat \<Rightarrow> string \<Rightarrow> string" where
  "truncate_to n s = (if length s > n then take n s @ ''...'' else s)"

definition user_message :: "ChatRequest \<Rightarrow> message" where
  "user_message req =
     \<lparr>content = prompt req, role = ''user'', timestamp = SERVER_TIMESTAMP,
      has_image = truthy (screenshot req)\<rparr>"

definition assistant_message :: "string \<Rightarrow> message" where
  "assistant_message ai_response =
     \<lparr>content = ai_response, role = ''assistant'', timestamp = SERVER_TIMESTAMP,
      has_image = False\<rparr>"

definition chat_metadata :: "ChatRequest \<Rightarrow> string \<Rightarrow> chat_fields" where
  "chat_metadata req ai_response =
     \<lparr>updated_at = SERVER_TIMESTAMP,
      title = truncate_to 50 (prompt req),
      last_message = truncate_to 100 ai_response\<rparr>"

text \<open>Lines 128-156: the body of the storage \<open>try\<close>; \<open>Some m\<close> is the exception
  that ended it.\<close>

definition store_try ::
  "db_client \<Rightarrow> ChatRequest \<Rightarrow> string \<Rightarrow> string \<Rightarrow> event list \<times> string option" where
  "store_try d req cid ai_response =
     (case chat_document d (user_id req) cid of
        Some m \<Rightarrow> ([], Some m)
      | None \<Rightarrow>
          (case messages_add d (user_id req) cid (user_message req) of
             Some m \<Rightarrow> ([MessagesAdd (user_id req) cid (user_message req)], Some m)
           | None \<Rightarrow>
               (case messages_add d (user_id req) cid (assistant_message ai_response) of
                  Some m \<Rightarrow>
                    ([MessagesAdd (user_id req) cid (user_message req),
                      MessagesAdd (user_id req) cid (assistant_message ai_response)], Some m)
                | None \<Rightarrow>
                    ([MessagesAdd (user_id req) cid (user_message req),
                      MessagesAdd (user_id req) cid (assistant_message ai_response),
                      ChatSet (user_id req) cid (chat_metadata req ai_response)],
                     chat_set d (user_id req) cid (chat_metadata req ai_response)))))"

text \<open>Lines 127-159: storage is attempted only with a store client, and its
  exception is printed and dropped.\<close>

definition store_step :: "env \<Rightarrow> ChatRequest \<Rightarrow> string \<Rightarrow> string \<Rightarrow> event list" where
  "store_step e req cid ai_response =
     (case db e of
        None \<Rightarrow> []
      | Some d \<Rightarrow>
          (case store_try d req cid ai_response of
             (tr, None) \<Rightarrow> tr
           | (tr, Some m) \<Rightarrow> tr @ [Print (''Firebase storage error: '' @ m)]))"

text \<open>Lines 95-161: the body of the outer \<open>try\<close>.\<close>

definition chat_try :: "env \<Rightarrow> ChatRequest \<Rightarrow> event list \<times> (exn + ChatResponse)" where
  "chat_try e req =
     (let cid = choose_chat_id e req in
      case chat_history req of
        None \<Rightarrow> ([], Inl (PyError none_not_iterable))
      | Some msgs \<Rightarrow>
          (case ai_step e req (build_history msgs) of
             (tr, Inl ex) \<Rightarrow> (tr, Inl ex)
           | (tr, Inr ai_response) \<Rightarrow>
               (tr @ store_step e req cid ai_response,
                Inr (ChatResponse ai_response cid))))"

text \<open>Lines 91-164: the handler.\<close>

definition chat :: "env \<Rightarrow> ChatRequest \<Rightarrow> event list \<times> ChatResponse http" where
  "chat e req =
     (if model e = None \<and> vision_model e = None
      then ([], Raised 500 ''AI models not initialized'')
      else
        (case chat_try e req of
           (tr, Inl ex) \<Rightarrow> (tr, Raised 500 (''An error occurred: '' @ str_exn ex))
         | (tr, Inr r) \<Rightarrow> (tr, Returned r)))"

section \<open>GET /chats/{user_id}/{chat_id}\<close>

text \<open>Truthiness of a stored field value; a datetime is always true.\<close>

fun fs_truthy :: "fsval \<Rightarrow> bool" where
  "fs_truthy FNull = False"
| "fs_truthy (FBool b) = b"
| "fs_truthy (FInt i) = (i \<noteq> 0)"
| "fs_truthy (FStr s) = (s \<noteq> [])"
| "fs_truthy (FTimestamp t) = True"

fun class_of :: "fsval \<Rightarrow> string" where
  "class_of FNull = ''NoneType''"
| "class_of (FBool b) = ''bool''"
| "class_of (FInt i) = ''int''"
| "class_of (FStr s) = ''str''"
| "class_of (FTimestamp t) = ''DatetimeWithNanoseconds''"

text \<open>
  \<open>isinstance(v, c)\<close>: when \<open>c\<close> is not a class (nor a tuple or union of classes) Python
  raises \<open>TypeError\<close>, with this message since Python 3.10.
\<close>

fun py_isinstance :: "fsval \<Rightarrow> pyobj \<Rightarrow> string + bool" where
  "py_isinstance v (ClassObj c) = Inr (class_of v = c)"
| "py_isinstance v (SentinelObj d) =
     Inl ''isinstance() arg 2 must be a type, a tuple of types, or a union''"

text \<open>\<open>ts.isoformat()\<close>: only a datetime has the method.\<close>

fun ts_isoformat :: "env \<Rightarrow> fsval \<Rightarrow> string + string" where
  "ts_isoformat e (FTimestamp t) = Inr (isoformat e t)"
| "ts_isoformat e v = Inl (quoted (class_of v) @ '' object has no attribute '' @ quoted ''isoformat'')"

text \<open>Lines 198-209: one iteration of the loop.\<close>

definition format_message :: "env \<Rightarrow> document \<Rightarrow> exn + (string \<rightharpoonup> fsval)" where
  "format_message e doc =
     (let message_data = (doc_data doc)(''id'' \<mapsto> FStr (doc_id doc)) in
      case message_data ''timestamp'' of
        None \<Rightarrow> Inr message_data
      | Some ts \<Rightarrow>
          if \<not> fs_truthy ts then Inr message_data
          else
            (case py_isinstance ts SERVER_TIMESTAMP of
               Inl m \<Rightarrow> Inl (PyError m)
             | Inr True \<Rightarrow> Inr (message_data(''timestamp'' \<mapsto> FStr (datetime_now_isoformat e)))
             | Inr False \<Rightarrow>
                 (case ts_isoformat e ts of
                    Inl m \<Rightarrow> Inl (PyError m)
                  | Inr s \<Rightarrow> Inr (message_data(''timestamp'' \<mapsto> FStr s)))))"

fun format_messages :: "env \<Rightarrow> document list \<Rightarrow> exn + (string \<rightharpoonup> fsval) list" where
  "format_messages e [] = Inr []"
| "format_messages e (doc # docs) =
     (case format_message e doc of
        Inl ex \<Rightarrow> Inl ex
      | Inr m \<Rightarrow>
          (case format_messages e docs of
             Inl ex \<Rightarrow> Inl ex
           | Inr ms \<Rightarrow> Inr (m # ms)))"

text \<open>Lines 187-213: the handler; \<open>messages_stream\<close> is the query ordered by
  \<open>timestamp\<close> as the store answers it.\<close>

definition get_chat_messages ::
  "env \<Rightarrow> string \<Rightarrow> string \<Rightarrow> (string \<rightharpoonup> fsval) list http" where
  "get_chat_messages e uid cid =
     (case db e of
        None \<Rightarrow> Raised 500 ''Database not initialized''
      | Some d \<Rightarrow>
          (case messages_stream d uid cid of
             Inl m \<Rightarrow> Raised 500 (''An error occurred: '' @ m)
           | Inr docs \<Rightarrow>
               (case format_messages e docs of
                  Inl ex \<Rightarrow> Raised 500 (''An error occurred: '' @ str_exn ex)
                | Inr ms \<Rightarrow> Returned ms)))"

section \<open>Observations on a run\<close>

text \<open>The calls a run makes to the AI provider, and those it makes to the store.\<close>

fun is_provider_call :: "event \<Rightarrow> bool" where
  "is_provider_call (StartChat h) = True"
| "is_provider_call (SendMessage p) = True"
| "is_provider_call (GenerateContent p mt d) = True"
| "is_provider_call ev = False"

fun is_store_call :: "event \<Rightarrow> bool" where
  "is_store_call (MessagesAdd u c m) = True"
| "is_store_call (ChatSet u c f) = True"
| "is_store_call ev = False"

definition provider_calls :: "event list \<Rightarrow> event list" where
  "provider_calls tr = filter is_provider_call tr"

definition store_calls :: "event list \<Rightarrow> event list" where
  "store_calls tr = filter is_store_call tr"

text \<open>HTTP status classes.\<close>

definition is_client_error :: "nat \<Rightarrow> bool" where
  "is_client_error status = (400 \<le> status \<and> status < 500)"

definition is_server_error :: "nat \<Rightarrow> bool" where
  "is_server_error status = (500 \<le> status \<and> status < 600)"

text \<open>Reading a decimal numeral back, to show that \<open>str_int\<close> loses nothing.\<close>

definition digits_value :: "string \<Rightarrow> nat" where
  "digits_value s = foldl (\<lambda>a c. 10 * a + (of_char c - 48)) 0 s"

definition int_value :: "string \<Rightarrow> int" where
  "int_value s =
     (case s of
        [] \<Rightarrow> 0
      | c # cs \<Rightarrow> if c = CHR ''-'' then - int (digits_value cs) else int (digits_value s))"

section \<open>The library's Base64 decoder\<close>

text \<open>
  \<open>base64.b64decode(s)\<close> as the handler calls it, with the default \<open>validate=False\<close>:
  a \<open>str\<close> argument must be ASCII, and the decoding is \<open>binascii.a2b_base64\<close> in its
  non-strict mode (CPython 3.11). \<open>b64_value\<close> is the decoder's table: the 64 characters
  of the alphabet and their values.
\<close>

definition b64_value :: "char \<Rightarrow> nat option" where
  "b64_value c =
     (let n = (of_char c :: nat) in
      if 65 \<le> n \<and> n \<le> 90 then Some (n - 65)
      else if 97 \<le> n \<and> n \<le> 122 then Some (n - 71)
      else if 48 \<le> n \<and> n \<le> 57 then Some (n + 4)
      else if n = 43 then Some 62
      else if n = 47 then Some 63
      else None)"

text \<open>
  The decoder's loop over the input, with its state: \<open>quad_pos\<close> (position in the
  current group of four), \<open>leftchar\<close> (the bits left over), \<open>pads\<close> (padding characters
  seen in a row) and the bytes written so far. A character outside the alphabet is
  skipped. A \<open>=\<close> that completes the padding of a group ends the decoding and the rest
  of the input is ignored; any other \<open>=\<close> is skipped. The shifts and masks of the
  C source are written as arithmetic: \<open>(leftchar << 2) | (v >> 4)\<close> is
  \<open>leftchar * 4 + v div 16\<close>, and so on. At the end of the input an incomplete group
  raises \<open>binascii.Error\<close>.
\<close>

fun a2b_base64 :: "string \<Rightarrow> nat \<Rightarrow> nat \<Rightarrow> nat \<Rightarrow> string \<Rightarrow> string + string" where
  "a2b_base64 [] quad_pos leftchar pads out =
     (if quad_pos = 0 then Inr out
      else if quad_pos = 1 then
        Inl (''Invalid base64-encoded string: number of data characters (''
             @ str_nat (length out div 3 * 4 + 1)
             @ '') cannot be 1 more than a multiple of 4'')
      else Inl ''Incorrect padding'')"
| "a2b_base64 (c # cs) quad_pos leftchar pads out =
     (if c = CHR ''='' then
        (if 2 \<le> quad_pos \<and> 4 \<le> quad_pos + (pads + 1) then Inr out
         else a2b_base64 cs quad_pos leftchar (if 2 \<le> quad_pos then pads + 1 else pads) out)
      else
        (case b64_value c of
           None \<Rightarrow> a2b_base64 cs quad_pos leftchar pads out
         | Some v \<Rightarrow>
             if quad_pos = 0 then a2b_base64 cs 1 v 0 out
             else if quad_pos = 1 then
               a2b_base64 cs 2 (v mod 16) 0 (out @ [char_of (leftchar * 4 + v div 16)])
             else if quad_pos = 2 then
               a2b_base64 cs 3 (v mod 4) 0 (out @ [char_of (leftchar * 16 + v div 4)])
             else a2b_base64 cs 0 0 0 (out @ [char_of (leftchar * 64 + v)])))"

definition base64_b64decode :: "string \<Rightarrow> string + string" where
  "base64_b64decode s =
     (if list_ex (\<lambda>c. 128 \<le> (of_char c :: nat)) s
      then Inl ''string argument should contain only ASCII characters''
      else a2b_base64 s 0 0 0 [])"

text \<open>
  Well-formed Base64 text in the sense of RFC 4648: groups of four characters of the
  alphabet, the last group ending in at most two \<open>=\<close>. A payload that is not
  well-formed is malformed.
\<close>

definition well_formed_base64 :: "string \<Rightarrow> bool" where
  "well_formed_base64 s =
     (let body = takeWhile (\<lambda>c. c \<noteq> CHR ''='') s;
          padding = dropWhile (\<lambda>c. c \<noteq> CHR ''='') s
      in length s mod 4 = 0
         \<and> list_all (\<lambda>c. b64_value c \<noteq> None) body
         \<and> (padding = [] \<or> padding = ''='' \<or> padding = ''==''))"

section \<open>Example environments and requests\<close>

text \<open>Collaborators that answer, and a store whose second write fails.\<close>

definition reply_model :: "string \<Rightarrow> text_model" where
  "reply_model t =
     \<lparr>start_chat = (\<lambda>h. None), send_message = (\<lambda>h p. Inr (GenResponse (Inr t)))\<rparr>"

definition reply_vision :: "string \<Rightarrow> vision_client" where
  "reply_vision t = \<lparr>generate_content = (\<lambda>p mt d. Inr (GenResponse (Inr t)))\<rparr>"

definition working_db :: db_client where
  "working_db =
     \<lparr>chat_document = (\<lambda>u c. None), messages_add = (\<lambda>u c m. None),
      chat_set = (\<lambda>u c f. None), messages_stream = (\<lambda>u c. Inr [])\<rparr>"

definition failing_db :: db_client where
  "failing_db =
     \<lparr>chat_document = (\<lambda>u c. None),
      messages_add = (\<lambda>u c m. if role m = ''assistant'' then Some ''deadline exceeded'' else None),
      chat_set = (\<lambda>u c f. None), messages_stream = (\<lambda>u c. Inr [])\<rparr>"

text \<open>A store holding one message whose timestamp is committed.\<close>

definition one_message_db :: db_client where
  "one_message_db =
     \<lparr>chat_document = (\<lambda>u c. None), messages_add = (\<lambda>u c m. None),
      chat_set = (\<lambda>u c f. None),
      messages_stream = (\<lambda>u c. Inr [\<lparr>doc_id = ''m1'',
         doc_data = [''content'' \<mapsto> FStr ''Hi'', ''role'' \<mapsto> FStr ''user'',
                     ''timestamp'' \<mapsto> FTimestamp 1700000000,
                     ''has_image'' \<mapsto> FBool False]\<rparr>])\<rparr>"

definition example_env :: env where
  "example_env =
     \<lparr>model = Some (reply_model ''hello''), vision_model = Some (reply_vision ''a cat''),
      db = Some working_db, time_time = 1700000000.25, b64decode = base64_b64decode,
      datetime_now_isoformat = ''2024-01-01T00:00:00'', isoformat = (\<lambda>t. str_nat t)\<rparr>"

text \<open>The same process half a second later.\<close>

definition later_env :: env where
  "later_env = example_env\<lparr>time_time := 1700000000.75\<rparr>"

definition example_history :: "(string \<rightharpoonup> pyval) list" where
  "example_history =
     [[''role'' \<mapsto> PStr ''user'', ''content'' \<mapsto> PStr ''a''],
      [''role'' \<mapsto> PStr ''assistant'', ''content'' \<mapsto> PStr ''b''],
      [''role'' \<mapsto> PStr ''User'']]"

definition text_request :: ChatRequest where
  "text_request =
     \<lparr>prompt = ''Hi'', user_id = ''u1'', chat_id = None, screenshot = None,
      chat_history = Some example_history\<rparr>"

definition image_request :: ChatRequest where
  "image_request =
     \<lparr>prompt = ''What is this?'', user_id = ''u1'', chat_id = Some ''c1'',
      screenshot = Some ''data:image/png;base64,QUJD'', chat_history = Some example_history\<rparr>"

definition bad_image_request :: ChatRequest where
  "bad_image_request =
     \<lparr>prompt = ''What is this?'', user_id = ''u1'', chat_id = Some ''c1'',
      screenshot = Some ''data:image/png;base64,QUJ'', chat_history = Some example_history\<rparr>"

text \<open>Two requests whose payload is not Base64: one with two foreign characters after
  a complete group, one made of foreign characters only.\<close>

definition foreign_image_request :: ChatRequest where
  "foreign_image_request =
     \<lparr>prompt = ''What is this?'', user_id = ''u1'', chat_id = Some ''c1'',
      screenshot = Some ''data:image/png;base64,QUJD!!'', chat_history = Some example_history\<rparr>"

definition garbage_image_request :: ChatRequest where
  "garbage_image_request =
     \<lparr>prompt = ''What is this?'', user_id = ''u1'', chat_id = Some ''c1'',
      screenshot = Some ''@@@@'', chat_history = Some example_history\<rparr>"

definition long_request :: ChatRequest where
  "long_request =
     \<lparr>prompt = replicate 60 (CHR ''H''), user_id = ''u1'', chat_id = Some ''c1'',
      screenshot = None, chat_history = Some []\<rparr>"

section \<open>Decimal rendering is injective\<close>

lemma of_char_digit: "d < 10 \<Longrightarrow> of_char (digit_char d) = 48 + d"
  by (simp add: digit_char_def)

lemma digits_value_snoc: "digits_value (s @ [c]) = 10 * digits_value s + (of_char c - 48)"
  by (simp add: digits_value_def)

lemma digits_value_str_nat: "digits_value (str_nat n) = n"
proof (induction n rule: str_nat.induct)
  case (1 n)
  show ?case
  proof (cases "n < 10")
    case True
    then show ?thesis
      by (subst str_nat.simps) (simp add: digits_value_def of_char_digit)
  next
    case False
    with 1 show ?thesis
      by (subst str_nat.simps) (simp add: digits_value_snoc of_char_digit)
  qed
qed

lemma digit_char_not_minus: "d < 10 \<Longrightarrow> digit_char d \<noteq> CHR ''-''"
proof
  assume d: "d < 10" and "digit_char d = CHR ''-''"
  then have "of_char (digit_char d) = (of_char (CHR ''-'') :: nat)" by simp
  with d show False by (simp add: of_char_digit)
qed

lemma str_nat_nonempty: "str_nat n \<noteq> []"
  by (subst str_nat.simps) simp

lemma hd_str_nat: "hd (str_nat n) \<noteq> CHR ''-''"
proof (induction n rule: str_nat.induct)
  case (1 n)
  show ?case
  proof (cases "n < 10")
    case True
    then show ?thesis
      by (subst str_nat.simps) (simp add: digit_char_not_minus)
  next
    case False
    with 1 show ?thesis
      by (subst str_nat.simps) (simp add: str_nat_nonempty)
  qed
qed

lemma int_value_str_int: "int_value (str_int i) = i"
proof (cases "i < 0")
  case True
  then show ?thesis
    by (simp add: int_value_def str_int_def digits_value_str_nat)
next
  case False
  obtain c cs where s: "str_nat (nat i) = c # cs"
    using str_nat_nonempty [of "nat i"] by (cases "str_nat (nat i)") auto
  have "c \<noteq> CHR ''-''"
    using hd_str_nat [of "nat i"] s by simp
  with False s show ?thesis
    using digits_value_str_nat [of "nat i"]
    by (simp add: int_value_def str_int_def)
qed

lemma str_int_inj: "str_int i = str_int j \<longleftrightarrow> i = j"
  by (metis int_value_str_int)

lemma str_nat_small: "n < 10 \<Longrightarrow> str_nat n = [digit_char n]"
  by (subst str_nat.simps) simp

lemma str_nat_large: "\<not> n < 10 \<Longrightarrow> str_nat n = str_nat (n div 10) @ [digit_char (n mod 10)]"
  by (subst str_nat.simps) simp

lemma digit_char_values:
  "digit_char 0 = CHR ''0''" "digit_char 1 = CHR ''1''" "digit_char 2 = CHR ''2''"
  "digit_char 3 = CHR ''3''" "digit_char 4 = CHR ''4''" "digit_char 5 = CHR ''5''"
  "digit_char 6 = CHR ''6''" "digit_char 7 = CHR ''7''" "digit_char 8 = CHR ''8''"
  "digit_char 9 = CHR ''9''" "digit_char (Suc 0) = CHR ''1''"
  by (simp_all add: digit_char_def char_of_def bit_Suc_0_iff)

lemma str_int_example: "str_int 1700000000 = ''1700000000''"
  by (simp add: str_int_def str_nat_small str_nat_large digit_char_values)

lemma str_nat_500: "str_nat 500 = ''500''"
  by (simp add: str_nat_small str_nat_large digit_char_values)

section \<open>The availability check of POST /chat\<close>

text \<open>
  C8, as the claim states it, fails: with neither AI client initialised the handler
  rejects the request with status 500, which is a server error and not a client
  error.
\<close>

theorem chat_unavailable_not_client_error:
  "chat (example_env\<lparr>model := None, vision_model := None\<rparr>) text_request
     = ([], Raised 500 ''AI models not initialized'')
   \<and> \<not> is_client_error 500"
  by (simp add: chat_def example_env_def is_client_error_def)

text \<open>
  C8, amended: with neither AI client initialised the handler rejects the request with
  the server error 500 \<open>AI models not initialized\<close> and no provider (or any other
  collaborator) is called; with at least one client initialised this rejection does not
  occur.
\<close>

theorem chat_availability_check:
  "(model e = None \<and> vision_model e = None \<longrightarrow>
      chat e req = ([], Raised 500 ''AI models not initialized'') \<and> is_server_error 500)
   \<and> (model e \<noteq> None \<or> vision_model e \<noteq> None \<longrightarrow>
      snd (chat e req) \<noteq> Raised 500 ''AI models not initialized'')"
  by (auto simp: chat_def is_server_error_def split: prod.splits sum.splits)

theorem chat_availability_check_witness:
  "chat (example_env\<lparr>model := None, vision_model := None\<rparr>) image_request
     = ([], Raised 500 ''AI models not initialized'')
   \<and> snd (chat (example_env\<lparr>vision_model := None\<rparr>) image_request)
       \<noteq> Raised 500 ''AI models not initialized''"
  using chat_availability_check [of "example_env\<lparr>model := None, vision_model := None\<rparr>" image_request]
    chat_availability_check [of "example_env\<lparr>vision_model := None\<rparr>" image_request]
  by (simp add: example_env_def)

section \<open>The shape of a run of POST /chat\<close>

lemma vision_try_events:
  "ev \<in> set (fst (vision_try e req s)) \<Longrightarrow>
     \<exists>pl d. ev = GenerateContent (prompt req) ''image/jpeg'' d
       \<and> screenshot_payload s = Inr pl \<and> b64decode e pl = Inr d"
  by (auto simp: vision_try_def split: sum.splits option.splits)

lemma vision_branch_events:
  "ev \<in> set (fst (vision_branch e req s)) \<Longrightarrow>
     (\<exists>m. ev = Print m) \<or>
     (\<exists>pl d. ev = GenerateContent (prompt req) ''image/jpeg'' d
       \<and> screenshot_payload s = Inr pl \<and> b64decode e pl = Inr d)"
  using vision_try_events [of ev e req s]
  by (cases "vision_try e req s") (auto simp: vision_branch_def split: sum.splits)

lemma text_branch_events:
  "ev \<in> set (fst (text_branch e req h)) \<Longrightarrow> ev = StartChat h \<or> ev = SendMessage (prompt req)"
  by (auto simp: text_branch_def split: option.splits)

lemma ai_step_no_store_call:
  "ev \<in> set (fst (ai_step e req h)) \<Longrightarrow> \<not> is_store_call ev"
  by (auto simp: ai_step_def split: option.splits if_splits
      dest: vision_branch_events text_branch_events)

lemma ai_step_success_client:
  "ai_step e req h = (tr, Inr t) \<Longrightarrow> model e \<noteq> None \<or> vision_model e \<noteq> None"
  by (auto simp: ai_step_def vision_branch_def vision_try_def text_branch_def
      split: option.splits if_splits sum.splits prod.splits)

lemma chat_success:
  assumes "chat_history req = Some msgs"
    and "ai_step e req (build_history msgs) = (tr, Inr t)"
  shows "chat e req =
    (tr @ store_step e req (choose_chat_id e req) t,
     Returned (ChatResponse t (choose_chat_id e req)))"
  using assms ai_step_success_client [OF assms(2)]
  by (auto simp: chat_def chat_try_def Let_def)

lemma chat_failure:
  assumes "model e \<noteq> None \<or> vision_model e \<noteq> None"
    and "chat_history req = Some msgs"
    and "ai_step e req (build_history msgs) = (tr, Inl ex)"
  shows "chat e req = (tr, Raised 500 (''An error occurred: '' @ str_exn ex))"
  using assms by (auto simp: chat_def chat_try_def Let_def)

lemma chat_no_history:
  assumes "model e \<noteq> None \<or> vision_model e \<noteq> None"
    and "chat_history req = None"
  shows "chat e req = ([], Raised 500 (''An error occurred: '' @ none_not_iterable))"
  using assms by (auto simp: chat_def chat_try_def Let_def)

lemma chat_cases:
  obtains
    (unavailable) "model e = None" "vision_model e = None"
      "chat e req = ([], Raised 500 ''AI models not initialized'')"
  | (no_history) "chat_history req = None"
      "chat e req = ([], Raised 500 (''An error occurred: '' @ none_not_iterable))"
  | (ai_failed) msgs tr ex where "chat_history req = Some msgs"
      "ai_step e req (build_history msgs) = (tr, Inl ex)"
      "chat e req = (tr, Raised 500 (''An error occurred: '' @ str_exn ex))"
  | (answered) msgs tr t where "chat_history req = Some msgs"
      "ai_step e req (build_history msgs) = (tr, Inr t)"
      "chat e req = (tr @ store_step e req (choose_chat_id e req) t,
         Returned (ChatResponse t (choose_chat_id e req)))"
proof (cases "model e = None \<and> vision_model e = None")
  case True
  then show ?thesis using unavailable by (simp add: chat_def)
next
  case avail: False
  show ?thesis
  proof (cases "chat_history req")
    case None
    then show ?thesis using no_history chat_no_history avail by blast
  next
    case (Some msgs)
    obtain tr r where r: "ai_step e req (build_history msgs) = (tr, r)"
      by (cases "ai_step e req (build_history msgs)")
    show ?thesis
    proof (cases r)
      case (Inl ex)
      then show ?thesis using ai_failed [OF Some] chat_failure [OF _ Some] r avail by blast
    next
      case (Inr t)
      then show ?thesis using answered [OF Some] chat_success [OF Some] r by blast
    qed
  qed
qed

section \<open>Best-effort persistence\<close>

lemma prefix_of_three:
  "prefix xs [a, b, c] \<Longrightarrow> xs = [] \<or> xs = [a] \<or> xs = [a, b] \<or> xs = [a, b, c]"
  by (auto simp: prefix_Cons)

lemma store_try_prefix:
  "prefix (fst (store_try d req cid t))
     [MessagesAdd (user_id req) cid (user_message req),
      MessagesAdd (user_id req) cid (assistant_message t),
      ChatSet (user_id req) cid (chat_metadata req t)]"
  by (simp add: store_try_def split: option.splits)

lemma store_calls_append: "store_calls (xs @ ys) = store_calls xs @ store_calls ys"
  by (simp add: store_calls_def)

lemma store_calls_store_step:
  "store_calls (store_step e req cid t) =
     (case db e of None \<Rightarrow> [] | Some d \<Rightarrow> fst (store_try d req cid t))"
  by (auto simp: store_step_def store_calls_def store_try_def split: option.splits)

lemma store_calls_ai_step: "store_calls (fst (ai_step e req h)) = []"
  using ai_step_no_store_call [of _ e req h]
  by (auto simp: store_calls_def filter_empty_conv)

lemma store_calls_chat:
  "\<exists>t. prefix (store_calls (fst (chat e req)))
     [MessagesAdd (user_id req) (choose_chat_id e req) (user_message req),
      MessagesAdd (user_id req) (choose_chat_id e req) (assistant_message t),
      ChatSet (user_id req) (choose_chat_id e req) (chat_metadata req t)]"
proof (cases e req rule: chat_cases)
  case unavailable
  then show ?thesis by (simp add: store_calls_def)
next
  case no_history
  then show ?thesis by (simp add: store_calls_def)
next
  case (ai_failed msgs tr ex)
  then have "store_calls (fst (chat e req)) = []"
    using store_calls_ai_step [of e req "build_history msgs"] by simp
  then show ?thesis by simp
next
  case (answered msgs tr t)
  then have "store_calls (fst (chat e req)) = store_calls (store_step e req (choose_chat_id e req) t)"
    using store_calls_ai_step [of e req "build_history msgs"]
    by (simp add: store_calls_append)
  then show ?thesis
    using store_try_prefix [of _ req "choose_chat_id e req" t]
    by (auto simp: store_calls_store_step split: option.splits)
qed

text \<open>
  C1: whenever the AI step of a request succeeded with text \<open>t\<close>, the handler answers
  200 with \<open>t\<close> and the chat id, whatever the store does: without a store client
  nothing more happens, and when a persistence operation raises, the run ends with the
  log line for that error and the response is the same.
\<close>

theorem chat_storage_failure_not_propagated:
  assumes "chat_history req = Some msgs"
    and "ai_step e req (build_history msgs) = (tr, Inr t)"
  shows "snd (chat e req) = Returned (ChatResponse t (choose_chat_id e req))
    \<and> (db e = None \<longrightarrow> fst (chat e req) = tr)
    \<and> (\<forall>d tr' m. db e = Some d \<and> store_try d req (choose_chat_id e req) t = (tr', Some m)
          \<longrightarrow> fst (chat e req) = tr @ tr' @ [Print (''Firebase storage error: '' @ m)])"
  using chat_success [OF assms] by (auto simp: store_step_def)

lemma py_int_example:
  "py_int (time_time example_env) = 1700000000" "py_int (time_time later_env) = 1700000000"
  by (simp_all add: py_int_def example_env_def later_env_def)

lemma new_chat_id_example:
  "new_chat_id (time_time example_env) = ''chat_1700000000''"
  "new_chat_id (time_time later_env) = ''chat_1700000000''"
  by (simp_all add: new_chat_id_def py_int_example str_int_example)

lemma build_history_example:
  "build_history example_history =
     [\<lparr>h_role = ''user'', h_parts = [PStr ''a'']\<rparr>,
      \<lparr>h_role = ''model'', h_parts = [PStr ''b'']\<rparr>,
      \<lparr>h_role = ''model'', h_parts = [PStr '''']\<rparr>]"
  by (simp add: build_history_def example_history_def history_item_def dict_get_def)

lemma example_env_fields:
  "model example_env = Some (reply_model ''hello'')"
  "vision_model example_env = Some (reply_vision ''a cat'')"
  "db example_env = Some working_db"
  "b64decode example_env = base64_b64decode"
  by (simp_all add: example_env_def)

lemma ai_step_text_example:
  "model e = Some (reply_model t) \<Longrightarrow>
   ai_step e text_request h = ([StartChat h, SendMessage ''Hi''], Inr t)"
  by (simp add: ai_step_def text_branch_def text_request_def reply_model_def)

lemma choose_chat_id_text_example:
  "time_time e = time_time example_env \<Longrightarrow> choose_chat_id e text_request = ''chat_1700000000''"
  by (simp add: choose_chat_id_def text_request_def new_chat_id_example)

theorem chat_storage_failure_not_propagated_witness:
  "snd (chat (example_env\<lparr>db := Some failing_db\<rparr>) text_request)
     = Returned (ChatResponse ''hello'' ''chat_1700000000'')
   \<and> fst (chat (example_env\<lparr>db := Some failing_db\<rparr>) text_request)
     = [StartChat (build_history example_history), SendMessage ''Hi'',
        MessagesAdd ''u1'' ''chat_1700000000'' (user_message text_request),
        MessagesAdd ''u1'' ''chat_1700000000'' (assistant_message ''hello''),
        Print ''Firebase storage error: deadline exceeded'']
   \<and> chat (example_env\<lparr>db := None\<rparr>) text_request
     = ([StartChat (build_history example_history), SendMessage ''Hi''],
        Returned (ChatResponse ''hello'' ''chat_1700000000''))"
proof -
  let ?tr = "[StartChat (build_history example_history), SendMessage ''Hi'']"
  let ?e1 = "example_env\<lparr>db := Some failing_db\<rparr>"
  let ?e2 = "example_env\<lparr>db := None\<rparr>"
  have h: "chat_history text_request = Some example_history"
    by (simp add: text_request_def)
  have a1: "ai_step ?e1 text_request (build_history example_history) = (?tr, Inr ''hello'')"
    by (rule ai_step_text_example) (simp add: example_env_fields)
  have a2: "ai_step ?e2 text_request (build_history example_history) = (?tr, Inr ''hello'')"
    by (rule ai_step_text_example) (simp add: example_env_fields)
  have c1: "choose_chat_id ?e1 text_request = ''chat_1700000000''"
    by (rule choose_chat_id_text_example) simp
  have c2: "choose_chat_id ?e2 text_request = ''chat_1700000000''"
    by (rule choose_chat_id_text_example) simp
  have s: "store_try failing_db text_request ''chat_1700000000'' ''hello''
      = ([MessagesAdd ''u1'' ''chat_1700000000'' (user_message text_request),
          MessagesAdd ''u1'' ''chat_1700000000'' (assistant_message ''hello'')],
         Some ''deadline exceeded'')"
    by (simp add: store_try_def failing_db_def text_request_def user_message_def
        assistant_message_def)
  have r1: "snd (chat ?e1 text_request) = Returned (ChatResponse ''hello'' ''chat_1700000000'')"
    and t1: "fst (chat ?e1 text_request) = ?tr @
       [MessagesAdd ''u1'' ''chat_1700000000'' (user_message text_request),
        MessagesAdd ''u1'' ''chat_1700000000'' (assistant_message ''hello'')]
       @ [Print (''Firebase storage error: '' @ ''deadline exceeded'')]"
    using chat_storage_failure_not_propagated [OF h a1] s by (simp_all add: c1)
  have r2: "snd (chat ?e2 text_request) = Returned (ChatResponse ''hello'' ''chat_1700000000'')"
    and t2: "fst (chat ?e2 text_request) = ?tr"
    using chat_storage_failure_not_propagated [OF h a2] by (simp_all add: c2)
  show ?thesis
    using r1 t1 r2 t2 by (simp add: prod_eq_iff)
qed

section \<open>Order of the store writes\<close>

text \<open>
  C9: in every execution prefix of a run of POST /chat, the calls issued to the store
  so far are an initial segment of: append the user message, append the assistant
  message, upsert the chat metadata. So a prefix that contains the metadata upsert
  contains both appends before it, the user message first.
\<close>

theorem chat_store_write_order:
  assumes "prefix pre (fst (chat e req))"
  shows "\<exists>t. prefix (store_calls pre)
       [MessagesAdd (user_id req) (choose_chat_id e req) (user_message req),
        MessagesAdd (user_id req) (choose_chat_id e req) (assistant_message t),
        ChatSet (user_id req) (choose_chat_id e req) (chat_metadata req t)]
     \<and> (\<forall>u c f. ChatSet u c f \<in> set pre \<longrightarrow>
           store_calls pre =
             [MessagesAdd (user_id req) (choose_chat_id e req) (user_message req),
              MessagesAdd (user_id req) (choose_chat_id e req) (assistant_message t),
              ChatSet u c f])"
proof -
  obtain t where t: "prefix (store_calls (fst (chat e req)))
       [MessagesAdd (user_id req) (choose_chat_id e req) (user_message req),
        MessagesAdd (user_id req) (choose_chat_id e req) (assistant_message t),
        ChatSet (user_id req) (choose_chat_id e req) (chat_metadata req t)]"
    using store_calls_chat by blast
  have q: "prefix (store_calls pre) (store_calls (fst (chat e req)))"
    using assms by (simp add: store_calls_def filter_mono_prefix)
  from q t have p: "prefix (store_calls pre)
       [MessagesAdd (user_id req) (choose_chat_id e req) (user_message req),
        MessagesAdd (user_id req) (choose_chat_id e req) (assistant_message t),
        ChatSet (user_id req) (choose_chat_id e req) (chat_metadata req t)]"
    by (rule prefix_order.trans)
  have "store_calls pre =
             [MessagesAdd (user_id req) (choose_chat_id e req) (user_message req),
              MessagesAdd (user_id req) (choose_chat_id e req) (assistant_message t),
              ChatSet u c f]" if "ChatSet u c f \<in> set pre" for u c f
  proof -
    from that have "ChatSet u c f \<in> set (store_calls pre)"
      by (simp add: store_calls_def)
    with prefix_of_three [OF p] show ?thesis by auto
  qed
  with p show ?thesis by blast
qed

lemma chat_working_db_example:
  "fst (chat example_env text_request) =
     [StartChat (build_history example_history), SendMessage ''Hi'',
      MessagesAdd ''u1'' ''chat_1700000000'' (user_message text_request),
      MessagesAdd ''u1'' ''chat_1700000000'' (assistant_message ''hello''),
      ChatSet ''u1'' ''chat_1700000000'' (chat_metadata text_request ''hello'')]"
proof -
  have h: "chat_history text_request = Some example_history"
    by (simp add: text_request_def)
  have a: "ai_step example_env text_request (build_history example_history)
      = ([StartChat (build_history example_history), SendMessage ''Hi''], Inr ''hello'')"
    by (rule ai_step_text_example) (simp add: example_env_fields)
  have c: "choose_chat_id example_env text_request = ''chat_1700000000''"
    by (rule choose_chat_id_text_example) simp
  have s: "store_step example_env text_request ''chat_1700000000'' ''hello'' =
     [MessagesAdd ''u1'' ''chat_1700000000'' (user_message text_request),
      MessagesAdd ''u1'' ''chat_1700000000'' (assistant_message ''hello''),
      ChatSet ''u1'' ''chat_1700000000'' (chat_metadata text_request ''hello'')]"
    by (simp add: store_step_def store_try_def example_env_fields working_db_def
        text_request_def)
  show ?thesis
    using chat_success [OF h a] by (simp add: c s)
qed

theorem chat_store_write_order_witness:
  "store_calls (fst (chat example_env text_request)) =
     [MessagesAdd ''u1'' ''chat_1700000000'' (user_message text_request),
      MessagesAdd ''u1'' ''chat_1700000000'' (assistant_message ''hello''),
      ChatSet ''u1'' ''chat_1700000000'' (chat_metadata text_request ''hello'')]"
proof -
  let ?tr = "fst (chat example_env text_request)"
  have m: "ChatSet ''u1'' ''chat_1700000000'' (chat_metadata text_request ''hello'') \<in> set ?tr"
    by (simp add: chat_working_db_example)
  obtain t where t: "store_calls ?tr =
      [MessagesAdd (user_id text_request) (choose_chat_id example_env text_request)
         (user_message text_request),
       MessagesAdd (user_id text_request) (choose_chat_id example_env text_request)
         (assistant_message t),
       ChatSet ''u1'' ''chat_1700000000'' (chat_metadata text_request ''hello'')]"
    using chat_store_write_order [of ?tr example_env text_request] m by auto
  have "store_calls ?tr =
     [MessagesAdd ''u1'' ''chat_1700000000'' (user_message text_request),
      MessagesAdd ''u1'' ''chat_1700000000'' (assistant_message ''hello''),
      ChatSet ''u1'' ''chat_1700000000'' (chat_metadata text_request ''hello'')]"
    by (simp add: chat_working_db_example store_calls_def)
  with t show ?thesis by simp
qed

section \<open>The derived display fields\<close>

text \<open>
  C6: whenever a run of POST /chat issues the metadata upsert, the stored title is the
  prompt itself when the prompt has at most 50 characters and its first 50 characters
  followed by \<open>...\<close> otherwise; the stored last message obeys the same rule with 100
  on the AI text that the handler returns.
\<close>

theorem chat_stored_title_and_last_message:
  assumes "ChatSet u c f \<in> set (fst (chat e req))"
  shows "title f = (if length (prompt req) \<le> 50 then prompt req
                    else take 50 (prompt req) @ ''...'')
    \<and> (\<exists>t. snd (chat e req) = Returned (ChatResponse t c)
          \<and> last_message f = (if length t \<le> 100 then t else take 100 t @ ''...''))"
proof (cases e req rule: chat_cases)
  case unavailable
  with assms show ?thesis by simp
next
  case no_history
  with assms show ?thesis by simp
next
  case (ai_failed msgs tr ex)
  with assms have "ChatSet u c f \<in> set (fst (ai_step e req (build_history msgs)))" by simp
  from ai_step_no_store_call [OF this] show ?thesis by simp
next
  case (answered msgs tr t)
  have "ChatSet u c f \<notin> set tr"
    using ai_step_no_store_call [of "ChatSet u c f" e req "build_history msgs"] answered(2)
    by auto
  with assms answered(3)
  have "ChatSet u c f \<in> set (store_step e req (choose_chat_id e req) t)" by simp
  then have "c = choose_chat_id e req \<and> f = chat_metadata req t"
    by (auto simp: store_step_def store_try_def split: option.splits)
  with answered(3) show ?thesis
    by (auto simp: chat_metadata_def truncate_to_def)
qed

theorem chat_stored_title_and_last_message_witness:
  "ChatSet ''u1'' ''c1'' (chat_metadata long_request (replicate 120 (CHR ''x'')))
     \<in> set (fst (chat (example_env\<lparr>model := Some (reply_model (replicate 120 (CHR ''x'')))\<rparr>)
                 long_request))
   \<and> title (chat_metadata long_request (replicate 120 (CHR ''x'')))
       = replicate 50 (CHR ''H'') @ ''...''
   \<and> last_message (chat_metadata long_request (replicate 120 (CHR ''x'')))
       = replicate 100 (CHR ''x'') @ ''...''
   \<and> title (chat_metadata text_request ''hello'') = ''Hi''
   \<and> last_message (chat_metadata text_request ''hello'') = ''hello''"
proof -
  let ?t = "replicate 120 (CHR ''x'')"
  let ?e = "example_env\<lparr>model := Some (reply_model ?t)\<rparr>"
  let ?f = "chat_metadata long_request ?t"
  have h: "chat_history long_request = Some []"
    by (simp add: long_request_def)
  have a: "ai_step ?e long_request (build_history []) =
      ([StartChat (build_history []), SendMessage (prompt long_request)], Inr ?t)"
    by (simp add: ai_step_def text_branch_def long_request_def reply_model_def)
  have c: "choose_chat_id ?e long_request = ''c1''"
    by (simp add: choose_chat_id_def long_request_def)
  have u: "user_id long_request = ''u1''"
    by (simp add: long_request_def)
  have d: "db ?e = Some working_db"
    by (simp add: example_env_fields)
  have s: "store_step ?e long_request ''c1'' ?t =
     [MessagesAdd ''u1'' ''c1'' (user_message long_request),
      MessagesAdd ''u1'' ''c1'' (assistant_message ?t),
      ChatSet ''u1'' ''c1'' ?f]"
    unfolding store_step_def store_try_def d by (simp add: working_db_def u)
  have m: "ChatSet ''u1'' ''c1'' ?f \<in> set (fst (chat ?e long_request))"
    using chat_success [OF h a] by (simp add: c s)
  have m2: "ChatSet ''u1'' ''chat_1700000000'' (chat_metadata text_request ''hello'')
      \<in> set (fst (chat example_env text_request))"
    by (simp add: chat_working_db_example)
  have p: "prompt long_request = replicate 60 (CHR ''H'')"
    by (simp add: long_request_def)
  have p2: "prompt text_request = ''Hi''"
    by (simp add: text_request_def)
  have r: "snd (chat ?e long_request) = Returned (ChatResponse ?t ''c1'')"
    using chat_success [OF h a] by (simp add: c)
  have r2: "snd (chat example_env text_request)
      = Returned (ChatResponse ''hello'' ''chat_1700000000'')"
    using chat_success [of text_request example_history example_env _ "''hello''"]
      ai_step_text_example [of example_env "''hello''" "build_history example_history"]
      choose_chat_id_text_example [of example_env]
    by (simp add: example_env_fields text_request_def)
  from chat_stored_title_and_last_message [OF m] r p
  have f1: "title ?f = replicate 50 (CHR ''H'') @ ''...''"
    and f2: "last_message ?f = replicate 100 (CHR ''x'') @ ''...''"
    by simp_all
  from chat_stored_title_and_last_message [OF m2] r2 p2
  have f3: "title (chat_metadata text_request ''hello'') = ''Hi''"
    and f4: "last_message (chat_metadata text_request ''hello'') = ''hello''"
    by simp_all
  from m f1 f2 f3 f4 show ?thesis by simp
qed

section \<open>The chat identifier\<close>

lemma choose_chat_id_supplied:
  "chat_id req = Some c \<Longrightarrow> c \<noteq> [] \<Longrightarrow> choose_chat_id e req = c"
  by (simp add: choose_chat_id_def)

lemma choose_chat_id_generated:
  "chat_id req = None \<or> chat_id req = Some [] \<Longrightarrow>
     choose_chat_id e req = ''chat_'' @ str_int (py_int (time_time e))"
  by (auto simp: choose_chat_id_def new_chat_id_def)

lemma chat_returned_chat_id:
  "snd (chat e req) = Returned r \<Longrightarrow> response_chat_id r = choose_chat_id e req"
  by (cases e req rule: chat_cases) auto

lemma new_chat_id_eq_iff: "new_chat_id t1 = new_chat_id t2 \<longleftrightarrow> py_int t1 = py_int t2"
  by (simp add: new_chat_id_def str_int_inj)

text \<open>
  C5, as the claim states it, fails: two chat-creation requests of one process, handled
  half a second apart, are both answered with the identifier \<open>chat_1700000000\<close>.
\<close>

theorem chat_generated_ids_collide:
  "chat_id text_request = None
   \<and> time_time example_env \<noteq> time_time later_env
   \<and> snd (chat example_env text_request)
       = Returned (ChatResponse ''hello'' ''chat_1700000000'')
   \<and> snd (chat later_env text_request)
       = Returned (ChatResponse ''hello'' ''chat_1700000000'')"
proof -
  have h: "chat_history text_request = Some example_history"
    by (simp add: text_request_def)
  have m: "model later_env = Some (reply_model ''hello'')"
    by (simp add: later_env_def example_env_def)
  have f1: "snd (chat example_env text_request)
       = Returned (ChatResponse ''hello'' ''chat_1700000000'')"
    using chat_success [OF h ai_step_text_example [OF example_env_fields(1)]]
    by (simp add: choose_chat_id_def text_request_def new_chat_id_example)
  have f2: "snd (chat later_env text_request)
       = Returned (ChatResponse ''hello'' ''chat_1700000000'')"
    using chat_success [OF h ai_step_text_example [OF m]]
    by (simp add: choose_chat_id_def text_request_def new_chat_id_example)
  have f3: "time_time example_env \<noteq> time_time later_env"
    by (simp add: later_env_def example_env_def)
  from f1 f2 f3 show ?thesis by (simp add: text_request_def)
qed

text \<open>
  C5, amended: a 200 response carries the supplied \<open>chat_id\<close> unchanged when one is
  supplied and not empty; when it is absent or empty the response carries
  \<open>chat_<n>\<close> with \<open>n\<close> the request time truncated to whole seconds; and the
  identifiers generated for two requests are distinct exactly when the two request times
  fall into different whole seconds.
\<close>

theorem chat_id_supplied_or_generated:
  "(\<forall>r. snd (chat e req) = Returned r \<longrightarrow> response_chat_id r = choose_chat_id e req)
   \<and> (\<forall>c. chat_id req = Some c \<and> c \<noteq> [] \<longrightarrow> choose_chat_id e req = c)
   \<and> (chat_id req = None \<or> chat_id req = Some [] \<longrightarrow>
        choose_chat_id e req = ''chat_'' @ str_int (py_int (time_time e)))
   \<and> (new_chat_id t1 \<noteq> new_chat_id t2 \<longleftrightarrow> py_int t1 \<noteq> py_int t2)"
  using chat_returned_chat_id [of e req] choose_chat_id_supplied [of req _ e]
    choose_chat_id_generated [of req e] new_chat_id_eq_iff [of t1 t2]
  by blast

theorem chat_id_supplied_or_generated_witness:
  "response_chat_id (ChatResponse ''hello'' ''chat_1700000000'')
     = choose_chat_id example_env text_request
   \<and> choose_chat_id example_env image_request = ''c1''
   \<and> choose_chat_id example_env text_request = ''chat_'' @ str_int 1700000000
   \<and> new_chat_id 1700000000.25 \<noteq> new_chat_id 1700000001.25"
proof -
  have r: "snd (chat example_env text_request)
       = Returned (ChatResponse ''hello'' ''chat_1700000000'')"
    using chat_success [of text_request example_history example_env _ "''hello''"]
      ai_step_text_example [of example_env "''hello''" "build_history example_history"]
      choose_chat_id_text_example [of example_env]
    by (simp add: example_env_fields text_request_def)
  have i: "chat_id image_request = Some ''c1'' \<and> ''c1'' \<noteq> []"
    by (simp add: image_request_def)
  have n: "chat_id text_request = None \<or> chat_id text_request = Some []"
    by (simp add: text_request_def)
  have p: "py_int 1700000000.25 \<noteq> py_int 1700000001.25"
    by (simp add: py_int_def)
  have q: "py_int (time_time example_env) = 1700000000"
    by (rule py_int_example)
  show ?thesis
    using chat_id_supplied_or_generated [of example_env text_request "1700000000.25" "1700000001.25"]
      chat_id_supplied_or_generated [of example_env image_request 0 0] r i n p q
    by simp
qed

section \<open>The screenshot payload\<close>

lemma str_split_unfold:
  "str_split sep s =
     takeWhile (\<lambda>c. c \<noteq> sep) s #
       (case dropWhile (\<lambda>c. c \<noteq> sep) s of [] \<Rightarrow> [] | c # r \<Rightarrow> str_split sep r)"
  by (induction s) (auto split: list.splits)

lemma dropWhile_comma:
  "sep \<in> set s \<Longrightarrow> dropWhile (\<lambda>c. c \<noteq> sep) s = sep # tl (dropWhile (\<lambda>c. c \<noteq> sep) s)"
  by (induction s) auto

text \<open>The payload always exists: it is the text between the first and the second
  comma, or the whole field when there is no comma.\<close>

lemma screenshot_payload_eq:
  "screenshot_payload s =
     Inr (if CHR '','' \<in> set s
          then takeWhile (\<lambda>c. c \<noteq> CHR '','') (tl (dropWhile (\<lambda>c. c \<noteq> CHR '','') s))
          else s)"
proof (cases "CHR '','' \<in> set s")
  case True
  let ?r = "tl (dropWhile (\<lambda>c. c \<noteq> CHR '','') s)"
  have "str_split (CHR '','') s =
      takeWhile (\<lambda>c. c \<noteq> CHR '','') s # str_split (CHR '','') ?r"
    by (subst str_split_unfold, subst dropWhile_comma [OF True]) simp
  also have "str_split (CHR '','') ?r = takeWhile (\<lambda>c. c \<noteq> CHR '','') ?r #
       (case dropWhile (\<lambda>c. c \<noteq> CHR '','') ?r of [] \<Rightarrow> [] | c # r \<Rightarrow> str_split (CHR '','') r)"
    by (rule str_split_unfold)
  finally show ?thesis
    using True by (simp add: screenshot_payload_def index1_def)
next
  case False
  then show ?thesis by (simp add: screenshot_payload_def)
qed

lemma screenshot_payload_example:
  "screenshot_payload ''data:image/png;base64,QUJD'' = Inr ''QUJD''"
  "screenshot_payload ''data:image/png;base64,QUJ'' = Inr ''QUJ''"
  by (simp_all add: screenshot_payload_eq)

section \<open>Provider calls of a run\<close>

lemma provider_calls_store_step: "provider_calls (store_step e req cid t) = []"
  by (auto simp: provider_calls_def store_step_def store_try_def split: option.splits)

lemma provider_calls_chat:
  assumes "model e \<noteq> None \<or> vision_model e \<noteq> None"
    and "chat_history req = Some msgs"
  shows "provider_calls (fst (chat e req))
     = provider_calls (fst (ai_step e req (build_history msgs)))"
proof (cases "ai_step e req (build_history msgs)")
  case (Pair tr r)
  show ?thesis
  proof (cases r)
    case (Inl ex)
    with Pair chat_failure [OF assms] show ?thesis by simp
  next
    case (Inr t)
    with Pair chat_success [OF assms(2)] show ?thesis
      using provider_calls_store_step [of e req "choose_chat_id e req" t]
      by (simp add: provider_calls_def)
  qed
qed

lemma provider_calls_chat_subset:
  "ev \<in> set (provider_calls (fst (chat e req))) \<Longrightarrow>
     \<exists>msgs. chat_history req = Some msgs \<and> ev \<in> set (fst (ai_step e req (build_history msgs)))"
proof (cases e req rule: chat_cases)
  case unavailable
  assume "ev \<in> set (provider_calls (fst (chat e req)))"
  with unavailable show ?thesis by (simp add: provider_calls_def)
next
  case no_history
  assume "ev \<in> set (provider_calls (fst (chat e req)))"
  with no_history show ?thesis by (simp add: provider_calls_def)
next
  case (ai_failed msgs tr ex)
  assume "ev \<in> set (provider_calls (fst (chat e req)))"
  with ai_failed show ?thesis by (simp add: provider_calls_def)
next
  case (answered msgs tr t)
  assume "ev \<in> set (provider_calls (fst (chat e req)))"
  with answered provider_calls_store_step [of e req "choose_chat_id e req" t]
  show ?thesis by (auto simp: provider_calls_def filter_empty_conv)
qed

lemma text_branch_trace:
  "model e = Some m \<Longrightarrow>
   fst (text_branch e req h) =
     (if start_chat m h = None then [StartChat h, SendMessage (prompt req)] else [StartChat h])"
  by (auto simp: text_branch_def split: option.splits)

lemma vision_branch_trace:
  "screenshot_payload s = Inr pl \<Longrightarrow> b64decode e pl = Inr img \<Longrightarrow> vision_model e = Some vm \<Longrightarrow>
   provider_calls (fst (vision_branch e req s)) = [GenerateContent (prompt req) ''image/jpeg'' img]"
  by (auto simp: vision_branch_def vision_try_def provider_calls_def split: sum.splits)

lemma vision_branch_history:
  "vision_branch e (req\<lparr>chat_history := h\<rparr>) s = vision_branch e req s"
  by (simp add: vision_branch_def vision_try_def split: sum.splits option.splits)

lemma store_step_history:
  "screenshot req = Some s \<Longrightarrow>
   store_step e (req\<lparr>chat_history := h\<rparr>) cid t = store_step e req cid t"
  by (simp add: store_step_def store_try_def user_message_def chat_metadata_def
      split: option.splits)

lemma chat_history_ignored:
  assumes "screenshot req = Some s" "s \<noteq> []"
  shows "chat e (req\<lparr>chat_history := Some h1\<rparr>) = chat e (req\<lparr>chat_history := Some h2\<rparr>)"
  using assms
  by (simp add: chat_def chat_try_def ai_step_def vision_branch_history store_step_history
      choose_chat_id_def)

section \<open>The two generation paths\<close>

text \<open>
  C2: for a request with a non-empty screenshot, every call the run makes to the AI
  provider is the vision call on the prompt and the decoded image (so the text model is
  never called and no history reaches the provider); when the request gets as far as
  the call (history is a list, the payload decodes, the vision client is set) exactly
  that one call is made; and the whole run is the same whatever history was supplied.
\<close>

theorem chat_vision_path:
  assumes "screenshot req = Some s" and "s \<noteq> []"
  shows "(\<forall>ev \<in> set (provider_calls (fst (chat e req))).
            \<exists>pl img. ev = GenerateContent (prompt req) ''image/jpeg'' img
              \<and> screenshot_payload s = Inr pl \<and> b64decode e pl = Inr img)
    \<and> (\<forall>vm msgs pl img.
          vision_model e = Some vm \<and> chat_history req = Some msgs
          \<and> screenshot_payload s = Inr pl \<and> b64decode e pl = Inr img
          \<longrightarrow> provider_calls (fst (chat e req))
                = [GenerateContent (prompt req) ''image/jpeg'' img])
    \<and> (\<forall>h1 h2. chat e (req\<lparr>chat_history := Some h1\<rparr>)
                = chat e (req\<lparr>chat_history := Some h2\<rparr>))"
proof (intro conjI ballI allI impI)
  fix ev
  assume ev: "ev \<in> set (provider_calls (fst (chat e req)))"
  then obtain msgs where "ev \<in> set (fst (ai_step e req (build_history msgs)))"
    using provider_calls_chat_subset by blast
  with assms have "ev \<in> set (fst (vision_branch e req s))"
    by (simp add: ai_step_def)
  moreover from ev have "is_provider_call ev"
    by (simp add: provider_calls_def)
  ultimately show "\<exists>pl img. ev = GenerateContent (prompt req) ''image/jpeg'' img
      \<and> screenshot_payload s = Inr pl \<and> b64decode e pl = Inr img"
    using vision_branch_events [of ev e req s] by auto
next
  fix vm msgs pl img
  assume a: "vision_model e = Some vm \<and> chat_history req = Some msgs
          \<and> screenshot_payload s = Inr pl \<and> b64decode e pl = Inr img"
  then have "provider_calls (fst (chat e req))
      = provider_calls (fst (ai_step e req (build_history msgs)))"
    using provider_calls_chat [of e req msgs] by simp
  also have "\<dots> = provider_calls (fst (vision_branch e req s))"
    using assms by (simp add: ai_step_def)
  also have "\<dots> = [GenerateContent (prompt req) ''image/jpeg'' img]"
    using a vision_branch_trace by blast
  finally show "provider_calls (fst (chat e req))
      = [GenerateContent (prompt req) ''image/jpeg'' img]" .
next
  fix h1 h2
  show "chat e (req\<lparr>chat_history := Some h1\<rparr>) = chat e (req\<lparr>chat_history := Some h2\<rparr>)"
    using assms by (rule chat_history_ignored)
qed

lemma b64_value_examples:
  "b64_value CHR ''Q'' = Some 16" "b64_value CHR ''U'' = Some 20" "b64_value CHR ''J'' = Some 9"
  "b64_value CHR ''D'' = Some 3" "b64_value CHR ''!'' = None" "b64_value CHR ''@'' = None"
  by (simp_all add: b64_value_def)

lemma char_of_examples:
  "char_of (65::nat) = CHR ''A''" "char_of (66::nat) = CHR ''B''" "char_of (67::nat) = CHR ''C''"
  by (simp_all add: char_of_def bit_Suc_0_iff)

lemma base64_b64decode_examples:
  "base64_b64decode ''QUJD'' = Inr ''ABC''"
  "base64_b64decode ''QUJ'' = Inl ''Incorrect padding''"
  "base64_b64decode ''QUJD!!'' = Inr ''ABC''"
  "base64_b64decode ''@@@@'' = Inr []"
  by (simp_all add: base64_b64decode_def b64_value_examples char_of_examples)

lemma well_formed_base64_examples:
  "well_formed_base64 ''QUJD''" "\<not> well_formed_base64 ''QUJD!!''"
  "\<not> well_formed_base64 ''@@@@''" "\<not> well_formed_base64 ''QUJ''"
  by (simp_all add: well_formed_base64_def b64_value_examples)

theorem chat_vision_path_witness:
  "provider_calls (fst (chat example_env image_request))
     = [GenerateContent ''What is this?'' ''image/jpeg'' ''ABC'']
   \<and> chat example_env (image_request\<lparr>chat_history := Some []\<rparr>)
     = chat example_env (image_request\<lparr>chat_history := Some example_history\<rparr>)"
proof -
  have s: "screenshot image_request = Some ''data:image/png;base64,QUJD''"
    and n: "''data:image/png;base64,QUJD'' \<noteq> []"
    and p: "prompt image_request = ''What is this?''"
    and h: "chat_history image_request = Some example_history"
    by (simp_all add: image_request_def)
  have d: "b64decode example_env ''QUJD'' = Inr ''ABC''"
    by (simp add: example_env_fields base64_b64decode_examples)
  note t = chat_vision_path [OF s n, of example_env]
  from t h d example_env_fields(2) screenshot_payload_example(1)
  have "provider_calls (fst (chat example_env image_request))
      = [GenerateContent (prompt image_request) ''image/jpeg'' ''ABC'']"
    by blast
  moreover from t
  have "chat example_env (image_request\<lparr>chat_history := Some []\<rparr>)
      = chat example_env (image_request\<lparr>chat_history := Some example_history\<rparr>)"
    by blast
  ultimately show ?thesis by (simp add: p)
qed

text \<open>
  C3: for a request without a screenshot whose history is a list, with the text client
  set, the run starts a chat on the rebuilt history and then sends the prompt: these are
  its only provider calls, in this order (the prompt is not sent when starting the chat
  raises). The rebuilt history has one entry per supplied entry, in the same order; its
  role is \<open>user\<close> exactly when the supplied role is the string \<open>user\<close> and \<open>model\<close>
  otherwise, and its single part is the supplied content (the empty string when absent).
\<close>

theorem chat_text_path:
  assumes "screenshot req = None \<or> screenshot req = Some []"
    and "model e = Some m"
    and "chat_history req = Some msgs"
  shows "provider_calls (fst (chat e req)) =
           (if start_chat m (build_history msgs) = None
            then [StartChat (build_history msgs), SendMessage (prompt req)]
            else [StartChat (build_history msgs)])
    \<and> length (build_history msgs) = length msgs
    \<and> (\<forall>i < length msgs.
          h_role (build_history msgs ! i)
            = (if (msgs ! i) ''role'' = Some (PStr ''user'') then ''user'' else ''model'')
          \<and> h_parts (build_history msgs ! i)
            = [case (msgs ! i) ''content'' of None \<Rightarrow> PStr [] | Some v \<Rightarrow> v])"
proof (intro conjI allI impI)
  have "provider_calls (fst (chat e req))
      = provider_calls (fst (ai_step e req (build_history msgs)))"
    using provider_calls_chat [of e req msgs] assms by simp
  also have "\<dots> = provider_calls (fst (text_branch e req (build_history msgs)))"
    using assms(1) by (auto simp: ai_step_def)
  also have "\<dots> = (if start_chat m (build_history msgs) = None
            then [StartChat (build_history msgs), SendMessage (prompt req)]
            else [StartChat (build_history msgs)])"
    by (simp add: text_branch_trace [OF assms(2)] provider_calls_def)
  finally show "provider_calls (fst (chat e req)) =
           (if start_chat m (build_history msgs) = None
            then [StartChat (build_history msgs), SendMessage (prompt req)]
            else [StartChat (build_history msgs)])" .
next
  show "length (build_history msgs) = length msgs"
    by (simp add: build_history_def)
next
  fix i assume "i < length msgs"
  then show "h_role (build_history msgs ! i)
            = (if (msgs ! i) ''role'' = Some (PStr ''user'') then ''user'' else ''model'')"
    by (auto simp: build_history_def history_item_def dict_get_def split: option.splits)
next
  fix i assume "i < length msgs"
  then show "h_parts (build_history msgs ! i)
            = [case (msgs ! i) ''content'' of None \<Rightarrow> PStr [] | Some v \<Rightarrow> v]"
    by (auto simp: build_history_def history_item_def dict_get_def split: option.splits)
qed

theorem chat_text_path_witness:
  "provider_calls (fst (chat example_env text_request)) =
     [StartChat [\<lparr>h_role = ''user'', h_parts = [PStr ''a'']\<rparr>,
                 \<lparr>h_role = ''model'', h_parts = [PStr ''b'']\<rparr>,
                 \<lparr>h_role = ''model'', h_parts = [PStr '''']\<rparr>],
      SendMessage ''Hi'']"
proof -
  have s: "screenshot text_request = None \<or> screenshot text_request = Some []"
    and h: "chat_history text_request = Some example_history"
    and p: "prompt text_request = ''Hi''"
    by (simp_all add: text_request_def)
  from chat_text_path [OF s example_env_fields(1) h, THEN conjunct1]
  show ?thesis
    by (simp add: build_history_example p reply_model_def)
qed

section \<open>What the decoder accepts\<close>

lemma b64_value_ascii: "b64_value c = Some v \<Longrightarrow> (of_char c :: nat) < 128 \<and> c \<noteq> CHR ''=''"
  by (auto simp: b64_value_def Let_def split: if_splits)

lemma a2b_base64_alphabet:
  assumes "list_all (\<lambda>c. b64_value c \<noteq> None) xs" and "q < 4"
  shows "\<exists>l' p' out'. a2b_base64 (xs @ rest) q l p out
           = a2b_base64 rest ((q + length xs) mod 4) l' p' out'"
  using assms
proof (induction xs arbitrary: q l p out)
  case Nil
  then show ?case by auto
next
  case (Cons c xs)
  then obtain v where v: "b64_value c = Some v" by auto
  then have ne: "c \<noteq> CHR ''=''" using b64_value_ascii by blast
  from Cons.prems have xs: "list_all (\<lambda>c. b64_value c \<noteq> None) xs" by simp
  from \<open>q < 4\<close> consider "q = 0" | "q = 1" | "q = 2" | "q = 3" by linarith
  then show ?case
  proof cases
    case 1
    with Cons.IH [OF xs, of 1 v 0 out] v ne show ?thesis by simp
  next
    case 2
    with Cons.IH [OF xs, of 2 "v mod 16" 0 "out @ [char_of (l * 4 + v div 16)]"] v ne
    show ?thesis by simp
  next
    case 3
    with Cons.IH [OF xs, of 3 "v mod 4" 0 "out @ [char_of (l * 16 + v div 4)]"] v ne
    show ?thesis by simp
  next
    case 4
    with Cons.IH [OF xs, of 0 0 0 "out @ [char_of (l * 64 + v)]"] v ne
    show ?thesis by simp
  qed
qed

text \<open>Well-formed Base64 text always decodes: the decoder raises on malformed
  payloads only, though not on all of them.\<close>

lemma a2b_base64_padding:
  assumes "pad = [] \<or> pad = ''='' \<or> pad = ''==''" and "(n + length pad) mod 4 = 0"
  shows "\<exists>img. a2b_base64 pad (n mod 4) l p out = Inr img"
proof -
  from assms(1) consider "pad = []" | "pad = ''=''" | "pad = ''==''" by blast
  then show ?thesis
  proof cases
    case 1
    with assms(2) show ?thesis by simp
  next
    case 2
    with assms(2) have "n mod 4 = 3" by (simp add: mod_Suc split: if_splits)
    with 2 show ?thesis by simp
  next
    case 3
    with assms(2) have "n mod 4 = 2" by (simp add: mod_Suc split: if_splits)
    with 3 show ?thesis by simp
  qed
qed

lemma well_formed_base64_ascii:
  assumes "well_formed_base64 s" and "c \<in> set s"
  shows "(of_char c :: nat) < 128"
proof -
  let ?body = "takeWhile (\<lambda>c. c \<noteq> CHR ''='') s"
  let ?pad = "dropWhile (\<lambda>c. c \<noteq> CHR ''='') s"
  have "set s = set ?body \<union> set ?pad"
    by (metis set_append takeWhile_dropWhile_id)
  with assms(2) have "c \<in> set ?body \<or> c \<in> set ?pad" by blast
  then show ?thesis
  proof
    assume "c \<in> set ?body"
    with assms(1) obtain v where "b64_value c = Some v"
      by (auto simp: well_formed_base64_def Let_def list_all_iff)
    then show ?thesis using b64_value_ascii by blast
  next
    assume m: "c \<in> set ?pad"
    from assms(1) have "?pad = [] \<or> ?pad = ''='' \<or> ?pad = ''==''"
      by (simp add: well_formed_base64_def Let_def)
    then consider "?pad = []" | "?pad = ''=''" | "?pad = ''==''" by blast
    then have "c = CHR ''=''"
    proof cases
      case 1
      with m have "c \<in> set []" by (simp only:)
      then show ?thesis by simp
    next
      case 2
      with m have "c \<in> set ''=''" by (simp only:)
      then show ?thesis by simp
    next
      case 3
      with m have "c \<in> set ''==''" by (simp only:)
      then show ?thesis by simp
    qed
    then show ?thesis by simp
  qed
qed

text \<open>Well-formed Base64 text always decodes: the decoder raises on malformed
  payloads only, though not on all of them.\<close>

lemma well_formed_base64_decodes:
  assumes "well_formed_base64 s"
  shows "\<exists>img. base64_b64decode s = Inr img"
proof -
  let ?body = "takeWhile (\<lambda>c. c \<noteq> CHR ''='') s"
  let ?pad = "dropWhile (\<lambda>c. c \<noteq> CHR ''='') s"
  from assms have wf: "length s mod 4 = 0
      \<and> list_all (\<lambda>c. b64_value c \<noteq> None) ?body
      \<and> (?pad = [] \<or> ?pad = ''='' \<or> ?pad = ''=='')"
    unfolding well_formed_base64_def Let_def .
  from wf have len: "length s mod 4 = 0" by (rule conjunct1)
  from wf have body: "list_all (\<lambda>c. b64_value c \<noteq> None) ?body" by blast
  from wf have pad: "?pad = [] \<or> ?pad = ''='' \<or> ?pad = ''==''" by blast
  have "\<not> 128 \<le> (of_char c :: nat)" if "c \<in> set s" for c
    using well_formed_base64_ascii [OF assms that] by simp
  then have ascii: "\<not> list_ex (\<lambda>c. 128 \<le> (of_char c :: nat)) s"
    by (simp add: list_ex_iff)
  have e: "?body @ ?pad = s" by (rule takeWhile_dropWhile_id)
  have z: "(0::nat) < 4" by simp
  obtain l p out where "a2b_base64 (?body @ ?pad) 0 0 0 []
      = a2b_base64 ?pad ((0 + length ?body) mod 4) l p out"
    using a2b_base64_alphabet [OF body z, of ?pad 0 0 "[]"] by blast
  then have d: "a2b_base64 s 0 0 0 [] = a2b_base64 ?pad (length ?body mod 4) l p out"
    unfolding e by (simp only: add_0)
  have "length ?body + length ?pad = length (?body @ ?pad)"
    by (simp only: length_append)
  then have "(length ?body + length ?pad) mod 4 = 0"
    unfolding e using len by (simp only:)
  from a2b_base64_padding [OF pad this, of l p out]
  obtain img where "a2b_base64 ?pad (length ?body mod 4) l p out = Inr img" by blast
  with d have "a2b_base64 s 0 0 0 [] = Inr img" by (simp only:)
  with ascii have "base64_b64decode s = Inr img"
    unfolding base64_b64decode_def by (simp only: if_False)
  then show ?thesis ..
qed

section \<open>Failures on the vision and text branches\<close>

lemma vision_branch_decode_error:
  "screenshot_payload s = Inr pl \<Longrightarrow> b64decode e pl = Inl m \<Longrightarrow>
   vision_branch e req s =
     ([Print (''Vision model error: '' @ m)],
      Inl (HTTPException 500 (''Vision model error: '' @ m)))"
  by (simp add: vision_branch_def vision_try_def)

lemma vision_branch_no_client:
  "screenshot_payload s = Inr pl \<Longrightarrow> b64decode e pl = Inr img \<Longrightarrow> vision_model e = None \<Longrightarrow>
   vision_branch e req s =
     ([Print (''Vision model error: '' @ none_has_no_attribute ''generate_content'')],
      Inl (HTTPException 500
             (''Vision model error: '' @ none_has_no_attribute ''generate_content'')))"
  by (simp add: vision_branch_def vision_try_def)

lemma vision_branch_no_client_fails:
  "vision_model e = None \<Longrightarrow>
   \<exists>d. vision_branch e req s = ([Print d], Inl (HTTPException 500 d))"
  by (auto simp: vision_branch_def vision_try_def split: sum.splits)

lemma text_branch_no_client:
  "model e = None \<Longrightarrow>
   text_branch e req h = ([], Inl (PyError (none_has_no_attribute ''start_chat'')))"
  by (simp add: text_branch_def)

lemma screenshot_payload_foreign:
  "screenshot_payload ''data:image/png;base64,QUJD!!'' = Inr ''QUJD!!''"
  "screenshot_payload ''@@@@'' = Inr ''@@@@''"
  by (simp_all add: screenshot_payload_eq)

lemma ai_step_vision_example:
  assumes "screenshot req = Some s" and "s \<noteq> []"
    and "screenshot_payload s = Inr pl" and "base64_b64decode pl = Inr img"
  shows "ai_step example_env req h =
    ([GenerateContent (prompt req) ''image/jpeg'' img], Inr ''a cat'')"
  using assms
  by (simp add: ai_step_def vision_branch_def vision_try_def example_env_fields
      reply_vision_def)

text \<open>
  C7, as the claim states it, fails. The payload \<open>QUJD!!\<close> is malformed Base64 (two
  characters outside the alphabet, a length that is no multiple of four) and so is
  \<open>@@@@\<close>; the decoder skips characters outside the alphabet and raises nothing, so
  the handler calls the vision model, on the bytes \<open>ABC\<close> and on no bytes at all, and
  answers 200.
\<close>

theorem chat_malformed_screenshot_accepted:
  "screenshot foreign_image_request = Some ''data:image/png;base64,QUJD!!''
   \<and> screenshot_payload ''data:image/png;base64,QUJD!!'' = Inr ''QUJD!!''
   \<and> \<not> well_formed_base64 ''QUJD!!''
   \<and> chat example_env foreign_image_request =
       ([GenerateContent ''What is this?'' ''image/jpeg'' ''ABC'',
         MessagesAdd ''u1'' ''c1'' (user_message foreign_image_request),
         MessagesAdd ''u1'' ''c1'' (assistant_message ''a cat''),
         ChatSet ''u1'' ''c1'' (chat_metadata foreign_image_request ''a cat'')],
        Returned (ChatResponse ''a cat'' ''c1''))
   \<and> screenshot garbage_image_request = Some ''@@@@''
   \<and> screenshot_payload ''@@@@'' = Inr ''@@@@''
   \<and> \<not> well_formed_base64 ''@@@@''
   \<and> chat example_env garbage_image_request =
       ([GenerateContent ''What is this?'' ''image/jpeg'' [],
         MessagesAdd ''u1'' ''c1'' (user_message garbage_image_request),
         MessagesAdd ''u1'' ''c1'' (assistant_message ''a cat''),
         ChatSet ''u1'' ''c1'' (chat_metadata garbage_image_request ''a cat'')],
        Returned (ChatResponse ''a cat'' ''c1''))"
proof -
  have f: "screenshot foreign_image_request = Some ''data:image/png;base64,QUJD!!''"
      "chat_history foreign_image_request = Some example_history"
      "prompt foreign_image_request = ''What is this?''"
      "user_id foreign_image_request = ''u1''"
      "choose_chat_id example_env foreign_image_request = ''c1''"
    by (simp_all add: foreign_image_request_def choose_chat_id_def)
  have g: "screenshot garbage_image_request = Some ''@@@@''"
      "chat_history garbage_image_request = Some example_history"
      "prompt garbage_image_request = ''What is this?''"
      "user_id garbage_image_request = ''u1''"
      "choose_chat_id example_env garbage_image_request = ''c1''"
    by (simp_all add: garbage_image_request_def choose_chat_id_def)
  have s: "store_step example_env req ''c1'' ''a cat'' =
      [MessagesAdd (user_id req) ''c1'' (user_message req),
       MessagesAdd (user_id req) ''c1'' (assistant_message ''a cat''),
       ChatSet (user_id req) ''c1'' (chat_metadata req ''a cat'')]" for req
    by (simp add: store_step_def store_try_def example_env_fields working_db_def)
  have af: "ai_step example_env foreign_image_request (build_history example_history) =
      ([GenerateContent (prompt foreign_image_request) ''image/jpeg'' ''ABC''], Inr ''a cat'')"
    by (rule ai_step_vision_example [OF f(1) _ screenshot_payload_foreign(1)
          base64_b64decode_examples(3)]) simp
  have ag: "ai_step example_env garbage_image_request (build_history example_history) =
      ([GenerateContent (prompt garbage_image_request) ''image/jpeg'' []], Inr ''a cat'')"
    by (rule ai_step_vision_example [OF g(1) _ screenshot_payload_foreign(2)
          base64_b64decode_examples(4)]) simp
  have cf: "chat example_env foreign_image_request =
       ([GenerateContent ''What is this?'' ''image/jpeg'' ''ABC'',
         MessagesAdd ''u1'' ''c1'' (user_message foreign_image_request),
         MessagesAdd ''u1'' ''c1'' (assistant_message ''a cat''),
         ChatSet ''u1'' ''c1'' (chat_metadata foreign_image_request ''a cat'')],
        Returned (ChatResponse ''a cat'' ''c1''))"
    using chat_success [OF f(2) af] by (simp add: f s)
  have cg: "chat example_env garbage_image_request =
       ([GenerateContent ''What is this?'' ''image/jpeg'' [],
         MessagesAdd ''u1'' ''c1'' (user_message garbage_image_request),
         MessagesAdd ''u1'' ''c1'' (assistant_message ''a cat''),
         ChatSet ''u1'' ''c1'' (chat_metadata garbage_image_request ''a cat'')],
        Returned (ChatResponse ''a cat'' ''c1''))"
    using chat_success [OF g(2) ag] by (simp add: g s)
  from f(1) g(1) cf cg screenshot_payload_foreign well_formed_base64_examples(2,3)
  show ?thesis by simp
qed

text \<open>
  C7, amended: a request whose screenshot payload (the text between the first and the
  second comma, or the whole field when it has no comma) makes the decoder raise is
  never answered with success: the handler always returns a 500 error and makes no
  provider call. When the request passes the availability check and its history is a
  list, the error detail is
  \<open>An error occurred: 500: Vision model error: <decode error text>\<close>, which
  contains the decode error text. The decoder raises on malformed payloads only, but
  not on every malformed payload.
\<close>

theorem chat_malformed_screenshot:
  assumes "screenshot req = Some s" and "s \<noteq> []"
    and "screenshot_payload s = Inr pl" and "b64decode e pl = Inl m"
  shows "(\<exists>d. snd (chat e req) = Raised 500 d)
    \<and> provider_calls (fst (chat e req)) = []
    \<and> ((model e \<noteq> None \<or> vision_model e \<noteq> None) \<and> chat_history req \<noteq> None \<longrightarrow>
         chat e req = ([Print (''Vision model error: '' @ m)],
                       Raised 500 (''An error occurred: 500: Vision model error: '' @ m))
         \<and> (\<exists>d. snd (chat e req) = Raised 500 d \<and> sublist m d))"
proof -
  have a: "ai_step e req h =
     ([Print (''Vision model error: '' @ m)],
      Inl (HTTPException 500 (''Vision model error: '' @ m)))" for h
    using assms by (simp add: ai_step_def vision_branch_decode_error)
  show ?thesis
  proof (cases "model e = None \<and> vision_model e = None")
    case True
    then show ?thesis by (simp add: chat_def provider_calls_def)
  next
    case False
    then have avail: "model e \<noteq> None \<or> vision_model e \<noteq> None" by simp
    show ?thesis
    proof (cases "chat_history req")
      case None
      with avail show ?thesis by (simp add: chat_no_history provider_calls_def)
    next
      case (Some msgs)
      have c: "chat e req = ([Print (''Vision model error: '' @ m)],
          Raised 500 (''An error occurred: 500: Vision model error: '' @ m))"
        using chat_failure [OF avail Some a] by (simp add: str_nat_500)
      have "sublist m (''An error occurred: 500: Vision model error: '' @ m)"
        by (rule sublist_append_leftI)
      with c show ?thesis by (simp add: provider_calls_def)
    qed
  qed
qed

theorem chat_malformed_screenshot_witness:
  "chat example_env bad_image_request =
     ([Print ''Vision model error: Incorrect padding''],
      Raised 500 ''An error occurred: 500: Vision model error: Incorrect padding'')"
proof -
  have s: "screenshot bad_image_request = Some ''data:image/png;base64,QUJ''"
    and n: "''data:image/png;base64,QUJ'' \<noteq> []"
    and h: "chat_history bad_image_request \<noteq> None"
    by (simp_all add: bad_image_request_def)
  have d: "b64decode example_env ''QUJ'' = Inl ''Incorrect padding''"
    by (simp add: example_env_fields base64_b64decode_examples)
  have m: "model example_env \<noteq> None \<or> vision_model example_env \<noteq> None"
    by (simp add: example_env_fields)
  from chat_malformed_screenshot [OF s n screenshot_payload_example(2) d] m h
  have "chat example_env bad_image_request =
     ([Print (''Vision model error: '' @ ''Incorrect padding'')],
      Raised 500 (''An error occurred: 500: Vision model error: '' @ ''Incorrect padding''))"
    by blast
  then show ?thesis by simp
qed

text \<open>
  C10: with exactly one AI client initialised, a request that needs the other one
  passes the availability check and then fails in the catch-all handler: the response
  is a 500 whose detail starts with \<open>An error occurred: \<close>, never the
  \<open>AI models not initialized\<close> rejection, and no provider call is made. When the
  history is a list (and, on the vision branch, the payload decodes) the detail is the
  \<open>AttributeError\<close> text of the access to the missing client.
\<close>

theorem chat_one_client_missing:
  assumes "(model e = None \<and> vision_model e \<noteq> None
              \<and> (screenshot req = None \<or> screenshot req = Some []))
         \<or> (model e \<noteq> None \<and> vision_model e = None
              \<and> (\<exists>s. screenshot req = Some s \<and> s \<noteq> []))"
  shows "(\<exists>d. snd (chat e req) = Raised 500 (''An error occurred: '' @ d))
    \<and> snd (chat e req) \<noteq> Raised 500 ''AI models not initialized''
    \<and> provider_calls (fst (chat e req)) = []
    \<and> (model e = None \<and> chat_history req \<noteq> None \<longrightarrow>
          snd (chat e req) =
            Raised 500 (''An error occurred: '' @ none_has_no_attribute ''start_chat''))
    \<and> (\<forall>s pl img. vision_model e = None \<and> chat_history req \<noteq> None
            \<and> screenshot req = Some s \<and> screenshot_payload s = Inr pl
            \<and> b64decode e pl = Inr img \<longrightarrow>
          snd (chat e req) =
            Raised 500 (''An error occurred: 500: Vision model error: ''
                        @ none_has_no_attribute ''generate_content''))"
proof -
  from assms have avail: "model e \<noteq> None \<or> vision_model e \<noteq> None" by auto
  show ?thesis
  proof (cases "chat_history req")
    case None
    with avail show ?thesis by (simp add: chat_no_history provider_calls_def)
  next
    case (Some msgs)
    from assms show ?thesis
    proof
      assume t: "model e = None \<and> vision_model e \<noteq> None
              \<and> (screenshot req = None \<or> screenshot req = Some [])"
      then have "ai_step e req (build_history msgs)
          = ([], Inl (PyError (none_has_no_attribute ''start_chat'')))"
        by (auto simp: ai_step_def text_branch_no_client)
      from chat_failure [OF avail Some this] t show ?thesis
        by (auto simp: provider_calls_def)
    next
      assume v: "model e \<noteq> None \<and> vision_model e = None
              \<and> (\<exists>s. screenshot req = Some s \<and> s \<noteq> [])"
      then obtain s where s: "screenshot req = Some s" "s \<noteq> []" by blast
      then have a: "ai_step e req (build_history msgs) = vision_branch e req s"
        by (simp add: ai_step_def)
      obtain d where d: "vision_branch e req s = ([Print d], Inl (HTTPException 500 d))"
        using vision_branch_no_client_fails v by blast
      have c: "chat e req = ([Print d], Raised 500 (''An error occurred: 500: '' @ d))"
        using chat_failure [OF avail Some] a d by (simp add: str_nat_500)
      have "d = ''Vision model error: '' @ none_has_no_attribute ''generate_content''"
        if "screenshot_payload s = Inr pl" "b64decode e pl = Inr img" for pl img
        using vision_branch_no_client [OF that, of req] v d by simp
      with c s v show ?thesis
        by (auto simp: provider_calls_def)
    qed
  qed
qed

theorem chat_one_client_missing_witness:
  "snd (chat (example_env\<lparr>model := None\<rparr>) text_request) =
     Raised 500 (''An error occurred: '' @ none_has_no_attribute ''start_chat'')
   \<and> snd (chat (example_env\<lparr>vision_model := None\<rparr>) image_request) =
     Raised 500 (''An error occurred: 500: Vision model error: ''
                 @ none_has_no_attribute ''generate_content'')"
proof -
  let ?e1 = "example_env\<lparr>model := None\<rparr>"
  let ?e2 = "example_env\<lparr>vision_model := None\<rparr>"
  have h1: "(model ?e1 = None \<and> vision_model ?e1 \<noteq> None
              \<and> (screenshot text_request = None \<or> screenshot text_request = Some []))
         \<or> (model ?e1 \<noteq> None \<and> vision_model ?e1 = None
              \<and> (\<exists>s. screenshot text_request = Some s \<and> s \<noteq> []))"
    by (simp add: example_env_fields text_request_def)
  have h2: "(model ?e2 = None \<and> vision_model ?e2 \<noteq> None
              \<and> (screenshot image_request = None \<or> screenshot image_request = Some []))
         \<or> (model ?e2 \<noteq> None \<and> vision_model ?e2 = None
              \<and> (\<exists>s. screenshot image_request = Some s \<and> s \<noteq> []))"
    by (simp add: example_env_fields image_request_def)
  have m1: "model ?e1 = None \<and> chat_history text_request \<noteq> None"
    by (simp add: text_request_def)
  have m2: "vision_model ?e2 = None \<and> chat_history image_request \<noteq> None
      \<and> screenshot image_request = Some ''data:image/png;base64,QUJD''
      \<and> screenshot_payload ''data:image/png;base64,QUJD'' = Inr ''QUJD''
      \<and> b64decode ?e2 ''QUJD'' = Inr ''ABC''"
    by (simp add: image_request_def screenshot_payload_example example_env_fields
        base64_b64decode_examples)
  from chat_one_client_missing [OF h1] m1
  have "snd (chat ?e1 text_request) =
     Raised 500 (''An error occurred: '' @ none_has_no_attribute ''start_chat'')"
    by blast
  moreover from chat_one_client_missing [OF h2] m2
  have "snd (chat ?e2 image_request) =
     Raised 500 (''An error occurred: 500: Vision model error: ''
                 @ none_has_no_attribute ''generate_content'')"
    by blast
  ultimately show ?thesis by simp
qed

section \<open>Reading the messages of a chat\<close>

lemma format_message_truthy_timestamp:
  assumes "doc_data doc ''timestamp'' = Some ts" and "fs_truthy ts"
  shows "format_message e doc =
    Inl (PyError ''isinstance() arg 2 must be a type, a tuple of types, or a union'')"
  using assms by (simp add: format_message_def SERVER_TIMESTAMP_def)

lemma format_message_cases:
  "format_message e doc = Inr ((doc_data doc)(''id'' \<mapsto> FStr (doc_id doc)))
   \<or> format_message e doc =
       Inl (PyError ''isinstance() arg 2 must be a type, a tuple of types, or a union'')"
  by (simp add: format_message_def SERVER_TIMESTAMP_def Let_def split: option.splits)

lemma format_messages_truthy_timestamp:
  assumes "doc \<in> set docs" and "doc_data doc ''timestamp'' = Some ts" and "fs_truthy ts"
  shows "format_messages e docs =
    Inl (PyError ''isinstance() arg 2 must be a type, a tuple of types, or a union'')"
  using assms
proof (induction docs)
  case Nil
  then show ?case by simp
next
  case (Cons d docs)
  show ?case
  proof (cases "d = doc")
    case True
    with Cons.prems show ?thesis
      by (simp add: format_message_truthy_timestamp)
  next
    case False
    with Cons have "format_messages e docs =
      Inl (PyError ''isinstance() arg 2 must be a type, a tuple of types, or a union'')"
      by simp
    with format_message_cases [of e d] show ?thesis by auto
  qed
qed

text \<open>Whenever the store answers with a message that has a committed timestamp, the
  handler fails.\<close>

lemma get_chat_messages_committed_timestamp_fails:
  assumes "db e = Some d" and "messages_stream d uid cid = Inr docs"
    and "doc \<in> set docs" and "doc_data doc ''timestamp'' = Some (FTimestamp t)"
  shows "get_chat_messages e uid cid =
    Raised 500 ''An error occurred: isinstance() arg 2 must be a type, a tuple of types, or a union''"
  using assms format_messages_truthy_timestamp [of doc docs "FTimestamp t" e]
  by (simp add: get_chat_messages_def)

text \<open>
  C4 does not hold of the code: for a chat that holds one message with a committed
  timestamp, GET /chats/u1/c1 with an available store client answers with a 500 error
  and returns no message. Line 204 passes the sentinel object, which is not a class,
  as the second argument of \<open>isinstance\<close>.
\<close>

theorem get_chat_messages_one_message_fails:
  "get_chat_messages (example_env\<lparr>db := Some one_message_db\<rparr>) ''u1'' ''c1'' =
    Raised 500 ''An error occurred: isinstance() arg 2 must be a type, a tuple of types, or a union''"
  by (simp add: get_chat_messages_def one_message_db_def format_message_def
      SERVER_TIMESTAMP_def)

end
